theory Spec2Isabelle
  imports Main
begin

section \<open>JavaScript strings\<close>

text \<open>
  A JavaScript string is a sequence of UTF-16 code units. A code unit is modelled as a
  natural number (the values that occur are below 65536); the regular expressions and
  string methods of \<^verbatim>\<open>src/index.js\<close> work on code units, so this is what they see.
  \<open>js\<close> turns an Isabelle string literal into the code units of the same ASCII text.
\<close>

type_synonym ustring = "nat list"

definition js :: "string \<Rightarrow> ustring" where
  "js s = map of_char s"

text \<open>
  \<^verbatim>\<open>thing.replace(/[^\x00-\x7F]/g, '')\<close>: every code unit above 0x7F is deleted.
  \<^verbatim>\<open>_removeNonAsciiCharacters\<close> dispatches on \<^verbatim>\<open>typeof thing\<close>: for a string it returns
  that replacement, for an array (typeof 'object') it replaces every element in place.
\<close>

definition removeNonAsciiCharacters :: "ustring \<Rightarrow> ustring" where
  "removeNonAsciiCharacters thing = filter (\<lambda>c. c \<le> 127) thing"

definition removeNonAsciiCharacters_array :: "ustring list \<Rightarrow> ustring list" where
  "removeNonAsciiCharacters_array thing = map removeNonAsciiCharacters thing"

text \<open>
  The code units \<^verbatim>\<open>String.prototype.trim\<close> removes and \<^verbatim>\<open>\s\<close> matches: WhiteSpace
  (TAB, VT, FF, SP, NBSP, ZWNBSP and the space separators) and LineTerminator
  (LF, CR, LS, PS), as ECMAScript 2016 and later list them.
\<close>

definition is_line_terminator :: "nat \<Rightarrow> bool" where
  "is_line_terminator c = (c = 10 \<or> c = 13 \<or> c = 8232 \<or> c = 8233)"

definition is_white_space :: "nat \<Rightarrow> bool" where
  "is_white_space c =
     (c = 9 \<or> c = 11 \<or> c = 12 \<or> c = 32 \<or> c = 160 \<or> c = 65279 \<or> c = 5760 \<or>
      (8192 \<le> c \<and> c \<le> 8202) \<or> c = 8239 \<or> c = 8287 \<or> c = 12288 \<or>
      is_line_terminator c)"

definition trim :: "ustring \<Rightarrow> ustring" where
  "trim s = rev (dropWhile is_white_space (rev (dropWhile is_white_space s)))"

definition starts_with :: "ustring \<Rightarrow> ustring \<Rightarrow> bool" where
  "starts_with p s = (take (length p) s = p)"

text \<open>
  \<^verbatim>\<open>s.match(/(a|b)/)\<close> for literal alternatives: the leftmost position where one of
  the alternatives matches, the alternatives tried in order there. The result is the
  matched text \<^verbatim>\<open>match[0]\<close>, or None for \<^verbatim>\<open>null\<close>.
\<close>

fun first_alt :: "ustring list \<Rightarrow> ustring \<Rightarrow> ustring option" where
  "first_alt [] s = None"
| "first_alt (p # ps) s = (if starts_with p s then Some p else first_alt ps s)"

fun match_alt :: "ustring list \<Rightarrow> ustring \<Rightarrow> ustring option" where
  "match_alt alts [] = first_alt alts []"
| "match_alt alts (c # cs) =
     (case first_alt alts (c # cs) of Some m \<Rightarrow> Some m | None \<Rightarrow> match_alt alts cs)"

text \<open>
  The \<^verbatim>\<open>i\<close> flag: two code units match when their canonical forms agree. For the
  ASCII letters of the patterns used here that is the ASCII letter in either case
  (a code unit above 127 never canonicalises to an ASCII one).
\<close>

definition canonicalize :: "nat \<Rightarrow> nat" where
  "canonicalize c = (if 97 \<le> c \<and> c \<le> 122 then c - 32 else c)"

definition match_alt_i :: "ustring list \<Rightarrow> ustring \<Rightarrow> bool" where
  "match_alt_i alts s =
     (match_alt (map (map canonicalize) alts) (map canonicalize s) \<noteq> None)"

text \<open>\<^verbatim>\<open>s.replace(p, r)\<close> for a literal p: the first occurrence is replaced.\<close>

fun replace_first :: "ustring \<Rightarrow> ustring \<Rightarrow> ustring \<Rightarrow> ustring" where
  "replace_first p r [] = (if p = [] then r else [])"
| "replace_first p r (c # cs) =
     (if starts_with p (c # cs) then r @ drop (length p) (c # cs)
      else c # replace_first p r cs)"

text \<open>
  \<^verbatim>\<open>s.split(sep)\<close>: the pieces between the successive, non-overlapping occurrences
  of sep, found from the left; always at least one piece.
\<close>

function split_from :: "ustring \<Rightarrow> ustring \<Rightarrow> ustring \<Rightarrow> ustring list" where
  "split_from sep piece [] = [piece]"
| "split_from sep piece (c # cs) =
     (if sep \<noteq> [] \<and> starts_with sep (c # cs)
      then piece # split_from sep [] (drop (length sep) (c # cs))
      else split_from sep (piece @ [c]) cs)"
  by pat_completeness auto
termination
  by (relation "measure (\<lambda>(sep, piece, s). length s)") auto

definition split :: "ustring \<Rightarrow> ustring \<Rightarrow> ustring list" where
  "split sep s = (if sep = [] then map (\<lambda>c. [c]) s else split_from sep [] s)"

section \<open>Showtimes\<close>

text \<open>
  \<^verbatim>\<open>getTime\<close> of \<^verbatim>\<open>_parseShowtimes\<close>. The closure variable \<^verbatim>\<open>meridiem\<close> (false, or
  the matched "am"/"pm") is passed in and returned.
\<close>

definition getTime :: "ustring option \<Rightarrow> ustring \<Rightarrow> ustring option \<times> ustring" where
  "getTime meridiem raw_time =
     (let showtime = trim (removeNonAsciiCharacters raw_time) in
      case match_alt [js ''am'', js ''pm''] showtime of
        Some m \<Rightarrow> (Some m, showtime)
      | None \<Rightarrow>
          (case meridiem of
             Some m \<Rightarrow> (meridiem, showtime @ m)
           | None \<Rightarrow> (meridiem, showtime)))"

text \<open>\<^verbatim>\<open>_.map(list, getTime)\<close>: left to right, the closure variable threaded through.\<close>

fun map_getTime :: "ustring option \<Rightarrow> ustring list \<Rightarrow> ustring list" where
  "map_getTime meridiem [] = []"
| "map_getTime meridiem (raw_time # rest) =
     (case getTime meridiem raw_time of
        (meridiem', showtime) \<Rightarrow> showtime # map_getTime meridiem' rest)"

text \<open>\<^verbatim>\<open>_.map(showtimes.reverse(), getTime.bind(this)).reverse()\<close>\<close>

definition reverse_pass :: "ustring list \<Rightarrow> ustring list" where
  "reverse_pass showtimes = rev (map_getTime None (rev showtimes))"

text \<open>
  What \<^verbatim>\<open>_parseShowtimes\<close> reads of \<^verbatim>\<open>thing\<close>: the elements of
  \<^verbatim>\<open>thing.find('.times a.fl')\<close> (for each its \<^verbatim>\<open>text()\<close> and its \<^verbatim>\<open>attr('href')\<close>, None
  for \<^verbatim>\<open>undefined\<close>), and \<^verbatim>\<open>thing.find('.times').text()\<close>.
\<close>

record anchor =
  a_text :: ustring
  a_href :: "ustring option"

record times_frag =
  times_a_fl :: "anchor list"
  times_text :: ustring

section \<open>Values, exceptions and the Node library\<close>

text \<open>
  A value read out of a parsed query string (\<^verbatim>\<open>undefined\<close>, a string, or an array of
  strings for a repeated key), and the \<^verbatim>\<open>false\<close> the code uses for "no id" and "no URL".
\<close>

datatype jsval = JUndefined | JFalse | JStr ustring | JArr "ustring list"

definition truthy :: "jsval \<Rightarrow> bool" where
  "truthy v = (case v of JUndefined \<Rightarrow> False | JFalse \<Rightarrow> False
                 | JStr s \<Rightarrow> s \<noteq> [] | JArr xs \<Rightarrow> True)"

datatype exn = TypeError

text \<open>
  \<^verbatim>\<open>url.parse(u)\<close> of Node: throws a TypeError unless u is a string; the result is an
  object whose \<^verbatim>\<open>query\<close> is the text after the first "?" (\<^verbatim>\<open>null\<close> without one).
\<close>

datatype url_object = Url (url_href: ustring) (url_query: "ustring option")

text \<open>
  What the code hands to \<^verbatim>\<open>querystring.parse\<close>: a string, \<^verbatim>\<open>null\<close>, or (in
  \<^verbatim>\<open>_parseTheater\<close>) the object \<^verbatim>\<open>url.parse\<close> returned.
\<close>

datatype qs_arg = QsString ustring | QsNull | QsUrl url_object

definition query_arg :: "url_object \<Rightarrow> qs_arg" where
  "query_arg u = (case url_query u of None \<Rightarrow> QsNull | Some s \<Rightarrow> QsString s)"

text \<open>
  Insertion-ordered object with string keys: \<^verbatim>\<open>obj[k] = v\<close> overwrites the value of
  a key that is there, and appends a new key.
\<close>

fun obj_set :: "ustring \<Rightarrow> 'v \<Rightarrow> (ustring \<times> 'v) list \<Rightarrow> (ustring \<times> 'v) list" where
  "obj_set k v [] = [(k, v)]"
| "obj_set k v (p # ps) = (if fst p = k then (k, v) # ps else p # obj_set k v ps)"

definition nth_opt :: "'a list \<Rightarrow> nat \<Rightarrow> 'a option" where
  "nth_opt xs i = (if i < length xs then Some (xs ! i) else None)"

section \<open>Fragments of a page\<close>

text \<open>
  The code reads a page through cheerio selections. A fragment is modelled by the
  answers to the queries the code makes on it, one field per query; the two parts of a
  movie fragment that \<^verbatim>\<open>_parseMovie\<close> rewrites are modelled by their content, and
  rewriting one of them leaves the answers of the other queries as they are.

  \<open>inode\<close>: the content of the last \<^verbatim>\<open>.info\<close> element in document order, as far as
  \<^verbatim>\<open>html()\<close>, \<^verbatim>\<open>replace('<br>', ' - ')\<close>, \<^verbatim>\<open>html(content)\<close> and \<^verbatim>\<open>text()\<close> see it: runs of
  text, and line breaks serialised as \<^verbatim>\<open><br>\<close>.
  \<open>snode\<close>: the child nodes of \<^verbatim>\<open>#SynopsisSecond0\<close>: text nodes, and child elements with
  their text.
\<close>

datatype inode = IText ustring | IBr

datatype snode = SText ustring | SElem ustring

record movie_frag =
  mv_name_text :: ustring                  \<comment> \<open>\<^verbatim>\<open>movie.find('.name').text()\<close>\<close>
  mv_h2_name_text :: ustring               \<comment> \<open>\<^verbatim>\<open>movie.find('h2[itemprop=name]').text()\<close>\<close>
  mv_name_a_href :: "ustring option"       \<comment> \<open>\<^verbatim>\<open>movie.find('.name a').attr('href')\<close>\<close>
  mv_h2_name_a_href :: "ustring option"
    \<comment> \<open>\<^verbatim>\<open>movie.find('.header .desc h2[itemprop=name] a').attr('href')\<close>\<close>
  mv_info_text :: ustring                  \<comment> \<open>\<^verbatim>\<open>movie.find('.info').text()\<close>\<close>
  mv_last_info :: "inode list option"
    \<comment> \<open>\<^verbatim>\<open>movie.find('.info').eq(-1)\<close>: its content, None when no \<^verbatim>\<open>.info\<close> is there\<close>
  mv_imdb_a :: "ustring option list"
    \<comment> \<open>\<^verbatim>\<open>movie.find('.info a:contains("IMDb")')\<close>: the href of each\<close>
  mv_trailer_a :: "ustring option list"
    \<comment> \<open>\<^verbatim>\<open>movie.find('.info a:contains("Trailer")')\<close>: the href of each\<close>
  mv_description_text :: ustring
    \<comment> \<open>\<^verbatim>\<open>movie.find('span[itemprop="description"]').text()\<close>\<close>
  mv_synopsis_second :: "snode list"
    \<comment> \<open>\<^verbatim>\<open>movie.find('#SynopsisSecond0')\<close>: its child nodes, [] when it is not there\<close>
  mv_times :: times_frag                   \<comment> \<open>what \<^verbatim>\<open>_parseShowtimes($, movie)\<close> reads\<close>

record theater_frag =
  th_name_a_href :: "ustring option"       \<comment> \<open>\<^verbatim>\<open>theater.find('.name a').attr('href')\<close>\<close>
  th_desc_name_a_href :: "ustring option"
    \<comment> \<open>\<^verbatim>\<open>theater.find('.desc h2.name a').attr('href')\<close>\<close>
  th_desc_info_text :: ustring             \<comment> \<open>\<^verbatim>\<open>theater.find('.desc .info').text()\<close>\<close>
  th_name_text :: ustring                  \<comment> \<open>\<^verbatim>\<open>theater.find('.name').text()\<close>\<close>
  th_address_text :: ustring               \<comment> \<open>\<^verbatim>\<open>theater.find('.address').text()\<close>\<close>
  th_desc_name_text :: ustring             \<comment> \<open>\<^verbatim>\<open>theater.find('.desc h2.name').text()\<close>\<close>
  th_times :: times_frag                   \<comment> \<open>what \<^verbatim>\<open>_parseShowtimes($, $(theater))\<close> reads\<close>
  th_movies :: "movie_frag list"           \<comment> \<open>\<^verbatim>\<open>theater.find('.showtimes .movie')\<close>\<close>

text \<open>
  A \<^verbatim>\<open>.movie\<close> element of a movie-first page: what \<^verbatim>\<open>_parseMovie\<close> reads, and what
  \<^verbatim>\<open>getMovies\<close> and \<^verbatim>\<open>getMovie\<close> read of it themselves.
\<close>

record movie_elem = movie_frag +
  me_theaters :: "theater_frag list"       \<comment> \<open>\<^verbatim>\<open>movie.find('.showtimes .theater')\<close>\<close>
  me_show_more :: nat
    \<comment> \<open>\<^verbatim>\<open>movie.find('.showtimes p.show_more').length\<close>\<close>

text \<open>
  A loaded page \<^verbatim>\<open>$\<close>. \<^verbatim>\<open>getTheaters\<close> and \<^verbatim>\<open>getMovies\<close> visit the elements of
  \<^verbatim>\<open>$('.theater')\<close> and \<^verbatim>\<open>$('.movie')\<close> one by one; \<^verbatim>\<open>getTheater\<close> and \<^verbatim>\<open>getMovie\<close> query
  the whole selection at once (\<open>pg_theater_all\<close>, \<open>pg_movie_all\<close>: the answers of the
  selection of all of them).
\<close>

record page =
  pg_theater :: "theater_frag list"        \<comment> \<open>the elements of \<^verbatim>\<open>$('.theater')\<close>\<close>
  pg_theater_all :: theater_frag           \<comment> \<open>\<^verbatim>\<open>$('.theater')\<close> as one selection\<close>
  pg_movie :: "movie_elem list"            \<comment> \<open>the elements of \<^verbatim>\<open>$('.movie')\<close>\<close>
  pg_movie_all :: movie_elem               \<comment> \<open>\<^verbatim>\<open>$('.movie')\<close> as one selection\<close>
  pg_results_text :: ustring               \<comment> \<open>\<^verbatim>\<open>$('#results').text()\<close>\<close>
  pg_title_bar_text :: ustring             \<comment> \<open>\<^verbatim>\<open>$('#title_bar').text()\<close>\<close>
  pg_left_nav_b_text :: ustring
    \<comment> \<open>\<^verbatim>\<open>$('#left_nav .section div b').first().text()\<close>\<close>
  pg_left_nav_a_href :: "ustring option"
    \<comment> \<open>\<^verbatim>\<open>$('#left_nav .section a').attr('href')\<close>\<close>
  pg_navbar_next :: nat
    \<comment> \<open>\<^verbatim>\<open>$('#navbar td a:contains("Next")').length\<close>\<close>

section \<open>Records the extractors build\<close>

record showtimes_response =
  showtimes :: "ustring list"
  showtime_tickets :: "(ustring \<times> jsval) list option"   \<comment> \<open>None: the key is not set\<close>

datatype genre = GenreFalse | GenreText ustring | GenreList "ustring list"

text \<open>
  \<^verbatim>\<open>movieData\<close>. \<open>m_runtime\<close> and \<open>m_rating\<close>: None is \<^verbatim>\<open>false\<close>. \<open>m_showtimes\<close>: None
  after \<^verbatim>\<open>delete movieData.showtimes\<close>. \<open>m_details\<close>: director, cast and description
  (None for an \<^verbatim>\<open>undefined\<close> director or cast), set when \<^verbatim>\<open>alternate && movieId\<close>.
\<close>

record movie_data =
  m_id :: jsval
  m_name :: ustring
  m_runtime :: "ustring option"
  m_rating :: "ustring option"
  m_genre :: genre
  m_imdb :: jsval
  m_trailer :: jsval
  m_showtimes :: "ustring list option"
  m_showtime_tickets :: "(ustring \<times> jsval) list option"
  m_details :: "(ustring option \<times> ustring list option \<times> ustring) option"

text \<open>The two shapes \<^verbatim>\<open>_parseTheater\<close> returns: with \<^verbatim>\<open>alternate\<close>, and without.\<close>

record theater_alt_data =
  ta_id :: jsval
  ta_name :: ustring
  ta_address :: ustring
  ta_showtimes :: "ustring list"
  ta_showtime_tickets :: "(ustring \<times> jsval) list option"

record theater_data =
  t_id :: jsval
  t_name :: ustring
  t_address :: ustring
  t_phoneNumber :: ustring
  t_movies :: "movie_data list"

text \<open>
  A movie as \<^verbatim>\<open>getMovies\<close> and \<^verbatim>\<open>getMovie\<close> deliver it: \<^verbatim>\<open>movieData\<close> with \<^verbatim>\<open>theaters\<close>
  and, when set, \<^verbatim>\<open>more_theaters = true\<close>.
\<close>

record movie_entry =
  e_movie :: movie_data
  e_theaters :: "theater_alt_data list"
  e_more_theaters :: bool

datatype result_data =
    TheatersData "theater_data list"
  | TheaterData theater_data
  | MoviesData "movie_entry list"
  | MovieData movie_entry

record result =
  r_location :: ustring
  r_date :: ustring
  r_data :: result_data

section \<open>The instance, requests and the environment\<close>

text \<open>
  \<open>page\<close>, \<open>theaters\<close> and \<open>movies\<close> are the fields \<^verbatim>\<open>getTheaters\<close> and \<^verbatim>\<open>getMovies\<close>
  store on \<^verbatim>\<open>this\<close>; None is \<^verbatim>\<open>undefined\<close> (for \<open>page\<close> also NaN).
\<close>

record api =
  userAgent :: ustring
  baseUrl :: ustring
  location :: ustring
  date :: int
  lang :: ustring
  pageLimit :: int
  page :: "int option"
  theaters :: "theater_data list option"
  movies :: "movie_entry list option"

record options =
  opt_date :: "int option"
  opt_lang :: "ustring option"
  opt_pageLimit :: "int option"

definition Showtimes :: "ustring \<Rightarrow> options \<Rightarrow> api" where
  "Showtimes loc opts =
     \<lparr> userAgent = js ''showtimes (http://github.com/erunion/showtimes)'',
       baseUrl = js ''http://google.com/movies'',
       location = loc,
       date = (case opt_date opts of Some d \<Rightarrow> d | None \<Rightarrow> 0),
       lang = (case opt_lang opts of Some l \<Rightarrow> l | None \<Rightarrow> js ''en''),
       pageLimit = (case opt_pageLimit opts of Some n \<Rightarrow> n | None \<Rightarrow> 999),
       page = None, theaters = None, movies = None \<rparr>"

text \<open>The \<^verbatim>\<open>params\<close> each public operation passes to \<^verbatim>\<open>_request\<close>.\<close>

datatype params =
    TheatersParams "ustring option"        \<comment> \<open>\<^verbatim>\<open>{q: query}\<close>, None for \<^verbatim>\<open>null\<close>\<close>
  | TheaterParams jsval                    \<comment> \<open>\<^verbatim>\<open>{tid: theaterId}\<close>\<close>
  | MoviesParams "ustring option"          \<comment> \<open>\<^verbatim>\<open>{sort: 1, q: query}\<close>\<close>
  | MovieParams jsval                      \<comment> \<open>\<^verbatim>\<open>{mid: movieId}\<close>\<close>

record request_options =
  rq_url :: ustring
  rq_user_agent :: ustring
  rq_hl :: ustring
  rq_near :: ustring
  rq_date :: int
  rq_start :: "int option"                 \<comment> \<open>None: NaN\<close>
  rq_params :: params

datatype request_error = RequestError ustring

text \<open>What \<^verbatim>\<open>request\<close> calls back with: an error, or a status code and a body.\<close>

datatype response = Failed request_error | Response int ustring

text \<open>
  The environment: the server behind \<^verbatim>\<open>request\<close>, \<^verbatim>\<open>cheerio.load\<close>, and the two Node
  functions on strings, \<open>url_query_of s\<close> for \<^verbatim>\<open>url.parse(s).query\<close> and \<open>qs_lookup s k\<close>
  for \<^verbatim>\<open>querystring.parse(s)[k]\<close> on a non-empty string s. The theorems hold for every
  environment.
\<close>

record env =
  http :: "request_options \<Rightarrow> response"
  cheerio_load :: "ustring \<Rightarrow> page"
  url_query_of :: "ustring \<Rightarrow> ustring option"
  qs_lookup :: "ustring \<Rightarrow> ustring \<Rightarrow> jsval"

definition url_parse :: "env \<Rightarrow> ustring option \<Rightarrow> exn + url_object" where
  "url_parse E u = (case u of None \<Rightarrow> Inl TypeError | Some s \<Rightarrow> Inr (Url s (url_query_of E s)))"

text \<open>
  \<^verbatim>\<open>querystring.parse(qs)[k]\<close>. Node returns the empty object when
  \<^verbatim>\<open>typeof qs !== 'string' || qs.length === 0\<close>.
\<close>

definition qs_parse :: "env \<Rightarrow> qs_arg \<Rightarrow> ustring \<Rightarrow> jsval" where
  "qs_parse E qs k =
     (case qs of
        QsString s \<Rightarrow> (if length s = 0 then JUndefined else qs_lookup E s k)
      | QsNull \<Rightarrow> JUndefined
      | QsUrl u \<Rightarrow> JUndefined)"

text \<open>
  \<^verbatim>\<open>iconv.decode(response, 'latin5')\<close> on the binary string \<^verbatim>\<open>request\<close> delivers: every
  code unit is a byte, read as ISO-8859-9, which differs from Latin-1 at six places.
\<close>

definition latin5 :: "nat \<Rightarrow> nat" where
  "latin5 b =
     (if b = 208 then 286 else if b = 221 then 304 else if b = 222 then 350
      else if b = 240 then 287 else if b = 253 then 305 else if b = 254 then 351
      else b)"

definition iconv_decode_latin5 :: "ustring \<Rightarrow> ustring" where
  "iconv_decode_latin5 response = map (\<lambda>c. latin5 (c mod 256)) response"

text \<open>
  How a public operation ends: the completion callback is called with these arguments,
  or an exception leaves the handler (nothing catches it, and the callback is not
  called).
\<close>

datatype cb_arg = ArgNull | ArgString ustring | ArgError request_error | ArgResult result

datatype outcome = Callback "cb_arg list" | Uncaught exn

section \<open>The extractors\<close>

subsection \<open>\<^verbatim>\<open>_parseShowtimes\<close>\<close>

text \<open>
  With ticket links: \<^verbatim>\<open>target.map(...)\<close> builds \<^verbatim>\<open>{time, url}\<close> for each anchor, where
  \<^verbatim>\<open>url.parse(href, true).query.q\<close> is the parsed query's \<^verbatim>\<open>q\<close> (the query object is
  empty when the link has no "?").
\<close>

definition ticket_item :: "env \<Rightarrow> anchor \<Rightarrow> exn + (ustring \<times> jsval)" where
  "ticket_item E el =
     (case url_parse E (a_href el) of
        Inl e \<Rightarrow> Inl e
      | Inr tickets_url \<Rightarrow>
          Inr (a_text el,
               (case url_query tickets_url of
                  None \<Rightarrow> JUndefined
                | Some s \<Rightarrow> qs_parse E (QsString s) (js ''q''))))"

fun ticket_items :: "env \<Rightarrow> anchor list \<Rightarrow> exn + (ustring \<times> jsval) list" where
  "ticket_items E [] = Inr []"
| "ticket_items E (el # els) =
     (case ticket_item E el of
        Inl e \<Rightarrow> Inl e
      | Inr item \<Rightarrow>
          (case ticket_items E els of Inl e \<Rightarrow> Inl e | Inr items \<Rightarrow> Inr (item # items)))"

text \<open>
  The second \<^verbatim>\<open>_.map\<close>: \<^verbatim>\<open>getTime\<close> on each item's time, and
  \<^verbatim>\<open>response.showtime_tickets[time] = item.url\<close>.
\<close>

fun map_tickets ::
  "ustring option \<Rightarrow> (ustring \<times> jsval) list \<Rightarrow> (ustring \<times> jsval) list
     \<Rightarrow> ustring list \<times> (ustring \<times> jsval) list" where
  "map_tickets meridiem tickets [] = ([], tickets)"
| "map_tickets meridiem tickets (item # rest) =
     (case getTime meridiem (fst item) of
        (meridiem', time) \<Rightarrow>
          (case map_tickets meridiem' (obj_set time (snd item) tickets) rest of
             (shown, tickets') \<Rightarrow> (time # shown, tickets')))"

definition parseShowtimes :: "env \<Rightarrow> times_frag \<Rightarrow> exn + showtimes_response" where
  "parseShowtimes E thing =
     (let target = times_a_fl thing in
      if length target = 0 then
        Inr \<lparr> showtimes = reverse_pass (split (js '' '') (times_text thing)),
              showtime_tickets = None \<rparr>
      else
        (case ticket_items E target of
           Inl e \<Rightarrow> Inl e
         | Inr items \<Rightarrow>
             (case map_tickets None [] (rev items) of
                (shown, tickets) \<Rightarrow>
                  Inr \<lparr> showtimes = rev shown, showtime_tickets = Some tickets \<rparr>)))"

subsection \<open>\<^verbatim>\<open>_parseTrailer\<close> and \<^verbatim>\<open>_parseImdb\<close>\<close>

text \<open>
  Both read the first matching anchor: \<^verbatim>\<open>'https://google.com' + href\<close> (the text
  "undefined" is appended for a missing href), then the \<^verbatim>\<open>q\<close> of its parsed query.
  \<open>links\<close> is the selection \<^verbatim>\<open>movie.find('.info a:contains("...")')\<close>.
\<close>

definition cloaked_q :: "env \<Rightarrow> ustring option list \<Rightarrow> jsval" where
  "cloaked_q E links =
     (case links of
        [] \<Rightarrow> JFalse
      | href # _ \<Rightarrow>
          (let cloakedUrl =
                 js ''https://google.com'' @ (case href of None \<Rightarrow> js ''undefined'' | Some h \<Rightarrow> h)
           in qs_parse E (query_arg (Url cloakedUrl (url_query_of E cloakedUrl))) (js ''q'')))"

definition parseTrailer :: "env \<Rightarrow> 'a movie_frag_scheme \<Rightarrow> jsval" where
  "parseTrailer E movie = cloaked_q E (mv_trailer_a movie)"

definition parseImdb :: "env \<Rightarrow> 'a movie_frag_scheme \<Rightarrow> jsval" where
  "parseImdb E movie = cloaked_q E (mv_imdb_a movie)"

subsection \<open>\<^verbatim>\<open>_parseMovie\<close>\<close>

text \<open>
  Lines 354 to 389: runtime, rating and genre out of the tokens \<^verbatim>\<open>info\<close>.
  \<^verbatim>\<open>info[0].match\<close> throws on an empty array; \<^verbatim>\<open>info[1]\<close> is replaced by \<^verbatim>\<open>''\<close> when
  it is missing or empty. The last step is \<^verbatim>\<open>if (genre) genre =
  this._removeNonAsciiCharacters(genre)\<close>: an empty string and \<^verbatim>\<open>false\<close> are falsy, an
  array is not.
\<close>

definition genre_ascii :: "genre \<Rightarrow> genre" where
  "genre_ascii g =
     (case g of
        GenreFalse \<Rightarrow> GenreFalse
      | GenreText s \<Rightarrow> (if s = [] then GenreText s else GenreText (removeNonAsciiCharacters s))
      | GenreList xs \<Rightarrow> GenreList (removeNonAsciiCharacters_array xs))"

definition genre_candidate :: "ustring \<Rightarrow> genre" where
  "genre_candidate t =
     (if match_alt_i [js ''IMDB'', js ''Trailer''] t then GenreFalse
      else GenreList (split (js ''/'') (trim t)))"

definition parseMovie_info ::
  "ustring list \<Rightarrow> exn + (ustring option \<times> ustring option \<times> genre)" where
  "parseMovie_info info =
     (case nth_opt info 0 of
        None \<Rightarrow> Inl TypeError
      | Some info0 \<Rightarrow>
          (case match_alt [js ''hr '', js ''min''] info0 of
             Some m \<Rightarrow>
               (let runtime = removeNonAsciiCharacters (trim info0);
                    info1 = (case nth_opt info 1 of None \<Rightarrow> [] | Some t \<Rightarrow> t)
                in case match_alt [js ''Rated''] info1 of
                     Some r \<Rightarrow>
                       (let rating =
                              removeNonAsciiCharacters (trim (replace_first (js ''Rated'') [] info1))
                        in case nth_opt info 2 of
                             Some info2 \<Rightarrow>
                               Inr (Some runtime, Some rating, genre_ascii (genre_candidate info2))
                           | None \<Rightarrow> Inr (Some runtime, Some rating, GenreFalse))
                   | None \<Rightarrow> Inr (Some runtime, None, genre_ascii (genre_candidate info1)))
           | None \<Rightarrow> Inr (None, None, genre_ascii (GenreText (trim info0)))))"

text \<open>
  The loop \<^verbatim>\<open>for (var x in info)\<close> of the detail fields: a later token overwrites an
  earlier one.
\<close>

fun scan_details ::
  "ustring list \<Rightarrow> ustring option \<Rightarrow> ustring list option
     \<Rightarrow> ustring option \<times> ustring list option" where
  "scan_details [] director cast = (director, cast)"
| "scan_details (t # ts) director cast =
     (case match_alt [js ''Director:''] t of
        Some m \<Rightarrow> scan_details ts (Some (trim (replace_first (js ''Director:'') [] t))) cast
      | None \<Rightarrow>
          (case match_alt [js ''Cast:''] t of
             Some m \<Rightarrow>
               scan_details ts director
                 (Some (split (js '', '') (trim (replace_first (js ''Cast:'') [] t))))
           | None \<Rightarrow> scan_details ts director cast))"

text \<open>
  \<^verbatim>\<open>content.replace('<br>', ' - ')\<close> followed by \<^verbatim>\<open>html(content)\<close>: the first line break
  of the element becomes the text " - ". \<^verbatim>\<open>text()\<close> is the text in document order.
\<close>

fun replace_br :: "inode list \<Rightarrow> inode list" where
  "replace_br [] = []"
| "replace_br (IBr # ns) = IText (js '' - '') # ns"
| "replace_br (IText t # ns) = IText t # replace_br ns"

fun inode_text :: "inode \<Rightarrow> ustring" where
  "inode_text (IText t) = t"
| "inode_text IBr = []"

definition info_text :: "inode list \<Rightarrow> ustring" where
  "info_text ns = concat (map inode_text ns)"

text \<open>
  \<^verbatim>\<open>movie.find('#SynopsisSecond0').children().last().remove()\<close>: the last child element
  goes (text nodes are not children in cheerio's sense).
\<close>

fun remove_first_elem :: "snode list \<Rightarrow> snode list" where
  "remove_first_elem [] = []"
| "remove_first_elem (SElem t # ns) = ns"
| "remove_first_elem (SText t # ns) = SText t # remove_first_elem ns"

definition remove_last_child :: "snode list \<Rightarrow> snode list" where
  "remove_last_child ns = rev (remove_first_elem (rev ns))"

fun snode_text :: "snode \<Rightarrow> ustring" where
  "snode_text (SText t) = t"
| "snode_text (SElem t) = t"

definition synopsis_text :: "snode list \<Rightarrow> ustring" where
  "synopsis_text ns = concat (map snode_text ns)"

text \<open>
  Lines 323 to 336: the id of a movie. A \<^verbatim>\<open>movieId\<close> that is passed is kept (\<open>JUndefined\<close>
  stands for an argument that is not passed); otherwise it is the \<^verbatim>\<open>mid\<close> of
  \<^verbatim>\<open>qs.parse(url.parse(cloakedUrl).query)\<close>.
\<close>

definition movieId_of ::
  "env \<Rightarrow> page \<Rightarrow> 'a movie_frag_scheme \<Rightarrow> bool \<Rightarrow> jsval \<Rightarrow> exn + jsval" where
  "movieId_of E pg movie alternate movieId0 =
     (if movieId0 = JUndefined then
        (let cloakedUrl0 =
               (if alternate then mv_h2_name_a_href movie else mv_name_a_href movie);
             cloakedUrl =
               (case cloakedUrl0 of None \<Rightarrow> pg_left_nav_a_href pg | Some h \<Rightarrow> Some h)
         in case url_parse E cloakedUrl of
              Inl e \<Rightarrow> Inl e
            | Inr u \<Rightarrow> Inr (qs_parse E (query_arg u) (js ''mid'')))
      else Inr movieId0)"

text \<open>
  Lines 340 to 352: the tokens \<^verbatim>\<open>info\<close>. With \<^verbatim>\<open>alternate\<close>, the last \<^verbatim>\<open>.info\<close> element is
  rewritten first (\<^verbatim>\<open>html()\<close> is \<^verbatim>\<open>null\<close> when there is none, and \<^verbatim>\<open>content.replace\<close>
  throws). The result holds the fragment as this step leaves it.
\<close>

definition movie_info ::
  "'a movie_frag_scheme \<Rightarrow> bool \<Rightarrow> exn + ('a movie_frag_scheme \<times> ustring list)" where
  "movie_info movie alternate =
     (if alternate then
        (case mv_last_info movie of
           None \<Rightarrow> Inl TypeError
         | Some content \<Rightarrow>
             Inr (movie\<lparr> mv_last_info := Some (replace_br content) \<rparr>,
                  split (js '' - '') (info_text (replace_br content))))
      else Inr (movie, split (js '' - '') (mv_info_text movie)))"

text \<open>
  Lines 392 to 408, under \<^verbatim>\<open>if (alternate && movieId)\<close>: director and cast out of the
  tokens; the description is read, the last child of the second panel is removed, the
  panel's text is appended, and the whole is trimmed. (The statement
  \<^verbatim>\<open>description.replace('/"/', '')\<close> drops its result.)
\<close>

definition movie_details ::
  "'a movie_frag_scheme \<Rightarrow> ustring list
     \<Rightarrow> 'a movie_frag_scheme \<times> (ustring option \<times> ustring list option \<times> ustring)" where
  "movie_details movie info =
     (case scan_details info None None of
        (director, cast) \<Rightarrow>
          (let description = mv_description_text movie;
               movie' = movie\<lparr> mv_synopsis_second :=
                                 remove_last_child (mv_synopsis_second movie) \<rparr>
           in (movie',
               (director, cast,
                trim (description @ synopsis_text (mv_synopsis_second movie'))))))"

text \<open>
  \<^verbatim>\<open>_parseMovie($, movie, alternate, movieId)\<close>. The result is an exception, or the
  fragment as the call leaves it together with the returned value (None for \<^verbatim>\<open>false\<close>).
  An exception is only thrown before the fragment is written to.
\<close>

definition parseMovie ::
  "env \<Rightarrow> page \<Rightarrow> 'a movie_frag_scheme \<Rightarrow> bool \<Rightarrow> jsval
     \<Rightarrow> exn + ('a movie_frag_scheme \<times> movie_data option)" where
  "parseMovie E pg movie alternate movieId0 =
     (let name = (if alternate then mv_h2_name_text movie else mv_name_text movie) in
      if name = [] then Inr (movie, None)
      else
        (case movieId_of E pg movie alternate movieId0 of
           Inl e \<Rightarrow> Inl e
         | Inr movieId \<Rightarrow>
             (case movie_info movie alternate of
                Inl e \<Rightarrow> Inl e
              | Inr (movie1, info) \<Rightarrow>
                  (case parseMovie_info info of
                     Inl e \<Rightarrow> Inl e
                   | Inr (runtime, rating, genre) \<Rightarrow>
                       (case (if alternate \<and> truthy movieId then
                                (case movie_details movie1 info of
                                   (movie2, details) \<Rightarrow> (movie2, Some details))
                              else (movie1, None)) of
                          (movie2, details) \<Rightarrow>
                            (case (if alternate then
                                     Inr \<lparr> showtimes = [], showtime_tickets = None \<rparr>
                                   else parseShowtimes E (mv_times movie2)) of
                               Inl e \<Rightarrow> Inl e
                             | Inr st \<Rightarrow>
                                 Inr (movie2,
                                      Some \<lparr> m_id = movieId, m_name = name,
                                             m_runtime = runtime, m_rating = rating,
                                             m_genre = genre,
                                             m_imdb = parseImdb E movie2,
                                             m_trailer = parseTrailer E movie2,
                                             m_showtimes = Some (showtimes st),
                                             m_showtime_tickets = showtime_tickets st,
                                             m_details = details \<rparr>)))))))"

subsection \<open>\<^verbatim>\<open>_parseTheater\<close>\<close>

text \<open>
  The id of a theater, lines 245 to 264. A \<^verbatim>\<open>theaterId\<close> that is passed is kept.
  Otherwise the link is looked up, and \<^verbatim>\<open>qs.parse(url.parse(cloakedUrl))\<close> is asked
  for \<^verbatim>\<open>tid\<close>: \<^verbatim>\<open>qs.parse\<close> is given the object \<^verbatim>\<open>url.parse\<close> returns, not its
  \<^verbatim>\<open>query\<close>.
\<close>

definition theaterId_of ::
  "env \<Rightarrow> page \<Rightarrow> theater_frag \<Rightarrow> bool \<Rightarrow> jsval \<Rightarrow> exn + jsval" where
  "theaterId_of E pg theater alternate theaterId0 =
     (if theaterId0 = JUndefined then
        (let cloakedUrl0 =
               (if alternate then th_name_a_href theater else th_desc_name_a_href theater);
             cloakedUrl =
               (case cloakedUrl0 of None \<Rightarrow> pg_left_nav_a_href pg | Some h \<Rightarrow> Some h)
         in case cloakedUrl of
              None \<Rightarrow> Inr JFalse
            | Some h \<Rightarrow>
                (if h = [] then Inr JFalse
                 else (case url_parse E (Some h) of
                         Inl e \<Rightarrow> Inl e
                       | Inr u \<Rightarrow>
                           (let tid = qs_parse E (QsUrl u) (js ''tid'')
                            in if tid = JUndefined then Inr JFalse else Inr tid))))
      else Inr theaterId0)"

text \<open>The branch \<^verbatim>\<open>if (alternate)\<close> of \<^verbatim>\<open>_parseTheater\<close>, which returns early.\<close>

definition parseTheater_alternate ::
  "env \<Rightarrow> page \<Rightarrow> theater_frag \<Rightarrow> jsval \<Rightarrow> exn + theater_alt_data" where
  "parseTheater_alternate E pg theater theaterId0 =
     (case theaterId_of E pg theater True theaterId0 of
        Inl e \<Rightarrow> Inl e
      | Inr theaterId \<Rightarrow>
          (case parseShowtimes E (th_times theater) of
             Inl e \<Rightarrow> Inl e
           | Inr st \<Rightarrow>
               Inr \<lparr> ta_id = theaterId, ta_name = th_name_text theater,
                     ta_address = th_address_text theater,
                     ta_showtimes = showtimes st,
                     ta_showtime_tickets = showtime_tickets st \<rparr>))"

text \<open>\<^verbatim>\<open>theater.find('.showtimes .movie').each(...)\<close>: a movie that is \<^verbatim>\<open>false\<close> is left out.\<close>

fun each_movie :: "env \<Rightarrow> page \<Rightarrow> movie_frag list \<Rightarrow> exn + movie_data list" where
  "each_movie E pg [] = Inr []"
| "each_movie E pg (movie # rest) =
     (case parseMovie E pg movie False JUndefined of
        Inl e \<Rightarrow> Inl e
      | Inr (movie', r) \<Rightarrow>
          (case each_movie E pg rest of
             Inl e \<Rightarrow> Inl e
           | Inr ms \<Rightarrow> Inr ((case r of None \<Rightarrow> [] | Some m \<Rightarrow> [m]) @ ms)))"

text \<open>\<^verbatim>\<open>_parseTheater\<close> without \<^verbatim>\<open>alternate\<close>.\<close>

definition parseTheater ::
  "env \<Rightarrow> page \<Rightarrow> theater_frag \<Rightarrow> jsval \<Rightarrow> exn + theater_data" where
  "parseTheater E pg theater theaterId0 =
     (case theaterId_of E pg theater False theaterId0 of
        Inl e \<Rightarrow> Inl e
      | Inr theaterId \<Rightarrow>
          (let info = split (js '' - '') (th_desc_info_text theater)
           in case each_movie E pg (th_movies theater) of
                Inl e \<Rightarrow> Inl e
              | Inr ms \<Rightarrow>
                  Inr \<lparr> t_id = theaterId, t_name = th_desc_name_text theater,
                        t_address = (case nth_opt info 0 of
                                       None \<Rightarrow> []
                                     | Some t \<Rightarrow> (if t = [] then [] else trim t)),
                        t_phoneNumber = (case nth_opt info 1 of
                                           None \<Rightarrow> []
                                         | Some t \<Rightarrow> (if t = [] then [] else trim t)),
                        t_movies = ms \<rparr>))"

section \<open>The public operations\<close>

subsection \<open>\<^verbatim>\<open>_request\<close>\<close>

definition request_options_of :: "api \<Rightarrow> params \<Rightarrow> request_options" where
  "request_options_of this ps =
     \<lparr> rq_url = baseUrl this, rq_user_agent = userAgent this,
       rq_hl = lang this, rq_near = location this, rq_date = date this,
       rq_start = (case page this of None \<Rightarrow> None | Some p \<Rightarrow> Some ((p - 1) * 10)),
       rq_params = ps \<rparr>"

definition unknown_error :: ustring where
  "unknown_error = js ''Unknown error occured while querying theater data from Google Movies.''"

text \<open>
  \<^verbatim>\<open>_request(params, cb, handler)\<close>: Inl is the call of \<^verbatim>\<open>cb\<close> it makes itself, Inr the
  body it passes to \<^verbatim>\<open>handler\<close>.
\<close>

definition request :: "env \<Rightarrow> api \<Rightarrow> params \<Rightarrow> outcome + ustring" where
  "request E this ps =
     (case http E (request_options_of this ps) of
        Failed error \<Rightarrow> Inl (Callback [ArgError error])
      | Response statusCode body \<Rightarrow>
          (if statusCode = 200 then Inr body else Inl (Callback [ArgString unknown_error])))"

subsection \<open>The page's location and day\<close>

text \<open>
  \<^verbatim>\<open>text.match(/^Showtimes for (.+)$/)\<close>: group 1, None for \<^verbatim>\<open>null\<close> (on which the
  \<^verbatim>\<open>[1]\<close> of the code throws). A dot matches every code unit but a line terminator.
\<close>

definition match_title :: "ustring \<Rightarrow> ustring option" where
  "match_title t =
     (let p = js ''Showtimes for ''; r = drop (length p) t in
      if starts_with p t \<and> r \<noteq> [] \<and> list_all (\<lambda>c. \<not> is_line_terminator c) r
      then Some r else None)"

text \<open>
  \<^verbatim>\<open>text.match(/^\<close>U+203A\<^verbatim>\<open>\s*(.+)$/)\<close>: group 1. The greedy \<^verbatim>\<open>\s*\<close> takes the whole run of
  white space, and gives its last code unit back when nothing follows the run.
\<close>

definition match_day :: "ustring \<Rightarrow> ustring option" where
  "match_day t =
     (case t of
        [] \<Rightarrow> None
      | c # r \<Rightarrow>
          (if c = 8250 then
             (let ws = takeWhile is_white_space r; rest = dropWhile is_white_space r in
              if rest = [] then
                (if ws = [] then None
                 else if is_line_terminator (last ws) then None
                 else Some [last ws])
              else if list_all (\<lambda>c. \<not> is_line_terminator c) rest then Some rest
              else None)
           else None))"

definition decode_response :: "api \<Rightarrow> ustring \<Rightarrow> ustring" where
  "decode_response this response =
     (if lang this = js ''tr'' then iconv_decode_latin5 response else response)"

subsection \<open>\<^verbatim>\<open>getTheaters\<close>\<close>

text \<open>
  \<^verbatim>\<open>$('.theater').each(...)\<close>: the theaters are pushed onto \<^verbatim>\<open>api.theaters\<close> (here
  \<open>acc\<close>) one by one; an exception ends the loop with what has been pushed.
\<close>

fun each_theater ::
  "env \<Rightarrow> page \<Rightarrow> theater_frag list \<Rightarrow> theater_data list \<Rightarrow> theater_data list \<times> exn option" where
  "each_theater E pg [] acc = (acc, None)"
| "each_theater E pg (theater # rest) acc =
     (case parseTheater E pg theater JUndefined of
        Inl e \<Rightarrow> (acc, Some e)
      | Inr theaterData \<Rightarrow>
          (if length (t_name theaterData) = 0 then each_theater E pg rest acc
           else each_theater E pg rest (acc @ [theaterData])))"

text \<open>
  How the handler of a paginated operation ends: it is finished (the callback was
  called, or an exception was thrown), or it calls the operation again with the next
  page number and the records so far.
\<close>

datatype 'r step = Finished api outcome | NextPage api int "'r list"

text \<open>
  The handler \<^verbatim>\<open>getTheaters\<close> passes to \<^verbatim>\<open>_request\<close>. \<open>p\<close> and \<open>acc\<close> are \<^verbatim>\<open>api.page\<close> and
  \<^verbatim>\<open>api.theaters\<close>, which the call has just set.
\<close>

definition getTheaters_handler ::
  "env \<Rightarrow> api \<Rightarrow> int \<Rightarrow> theater_data list \<Rightarrow> ustring \<Rightarrow> theater_data step" where
  "getTheaters_handler E this p acc response =
     (let pg = cheerio_load E (decode_response this response) in
      if length (pg_theater pg) = 0 then
        Finished this (Callback [ArgString (pg_results_text pg)])
      else
        (case match_title (pg_title_bar_text pg) of
           None \<Rightarrow> Finished this (Uncaught TypeError)
         | Some loc \<Rightarrow>
             (case match_day (pg_left_nav_b_text pg) of
                None \<Rightarrow> Finished this (Uncaught TypeError)
              | Some day \<Rightarrow>
                  (case each_theater E pg (pg_theater pg) acc of
                     (acc', Some e) \<Rightarrow> Finished (this\<lparr> theaters := Some acc' \<rparr>) (Uncaught e)
                   | (acc', None) \<Rightarrow>
                       (if pg_navbar_next pg = 0 \<or> p = pageLimit this then
                          Finished (this\<lparr> theaters := Some acc' \<rparr>)
                            (Callback [ArgNull,
                               ArgResult \<lparr> r_location = loc, r_date = day,
                                           r_data = TheatersData acc' \<rparr>])
                        else
                          NextPage (this\<lparr> page := Some (p + 1), theaters := Some acc' \<rparr>)
                            (p + 1) acc')))))"

text \<open>
  \<^verbatim>\<open>getTheaters(query, cb, page, theaters)\<close>. \<open>extra\<close> is the hidden pair of arguments of
  the recursive call, None for a call from outside. \<open>sent\<close> collects the requests
  issued, in order; the result is the instance as the operation leaves it, the
  requests, and how the operation ended. None: the operation never ends.
\<close>

partial_function (option) getTheaters ::
  "env \<Rightarrow> api \<Rightarrow> ustring option \<Rightarrow> (int \<times> theater_data list) option
     \<Rightarrow> request_options list \<Rightarrow> (api \<times> request_options list \<times> outcome) option" where
  "getTheaters E this query extra sent =
     (let p = (case extra of None \<Rightarrow> 1 | Some x \<Rightarrow> fst x);
          acc = (case extra of None \<Rightarrow> [] | Some x \<Rightarrow> snd x);
          api = this\<lparr> page := Some p, theaters := Some acc \<rparr>;
          sent' = sent @ [request_options_of api (TheatersParams query)]
      in case request E api (TheatersParams query) of
           Inl out \<Rightarrow> Some (api, sent', out)
         | Inr response \<Rightarrow>
             (case getTheaters_handler E api p acc response of
                Finished api' out \<Rightarrow> Some (api', sent', out)
              | NextPage api' p' acc' \<Rightarrow> getTheaters E api' query (Some (p', acc')) sent'))"

declare getTheaters.simps [code]

subsection \<open>\<^verbatim>\<open>getMovies\<close>\<close>

text \<open>\<^verbatim>\<open>movie.find('.showtimes .theater').each(...)\<close>: every theater is pushed.\<close>

fun each_alt_theater :: "env \<Rightarrow> page \<Rightarrow> theater_frag list \<Rightarrow> exn + theater_alt_data list" where
  "each_alt_theater E pg [] = Inr []"
| "each_alt_theater E pg (theater # rest) =
     (case parseTheater_alternate E pg theater JUndefined of
        Inl e \<Rightarrow> Inl e
      | Inr t \<Rightarrow>
          (case each_alt_theater E pg rest of Inl e \<Rightarrow> Inl e | Inr ts \<Rightarrow> Inr (t # ts)))"

text \<open>\<^verbatim>\<open>$('.movie').each(...)\<close> of \<^verbatim>\<open>getMovies\<close>.\<close>

fun each_movie_elem ::
  "env \<Rightarrow> page \<Rightarrow> movie_elem list \<Rightarrow> movie_entry list \<Rightarrow> movie_entry list \<times> exn option" where
  "each_movie_elem E pg [] acc = (acc, None)"
| "each_movie_elem E pg (movie # rest) acc =
     (case parseMovie E pg movie True JUndefined of
        Inl e \<Rightarrow> (acc, Some e)
      | Inr (movie', None) \<Rightarrow> each_movie_elem E pg rest acc
      | Inr (movie', Some movieData) \<Rightarrow>
          (case each_alt_theater E pg (me_theaters movie') of
             Inl e \<Rightarrow> (acc, Some e)
           | Inr ts \<Rightarrow>
               each_movie_elem E pg rest
                 (acc @ [\<lparr> e_movie = movieData\<lparr> m_showtimes := None \<rparr>,
                            e_theaters = ts,
                            e_more_theaters = (0 < me_show_more movie') \<rparr>])))"

definition getMovies_handler ::
  "env \<Rightarrow> api \<Rightarrow> int \<Rightarrow> movie_entry list \<Rightarrow> ustring \<Rightarrow> movie_entry step" where
  "getMovies_handler E this p acc response =
     (let pg = cheerio_load E (decode_response this response) in
      if length (pg_movie pg) = 0 then
        Finished this (Callback [ArgString (pg_results_text pg)])
      else
        (case match_title (pg_title_bar_text pg) of
           None \<Rightarrow> Finished this (Uncaught TypeError)
         | Some loc \<Rightarrow>
             (case match_day (pg_left_nav_b_text pg) of
                None \<Rightarrow> Finished this (Uncaught TypeError)
              | Some day \<Rightarrow>
                  (case each_movie_elem E pg (pg_movie pg) acc of
                     (acc', Some e) \<Rightarrow> Finished (this\<lparr> movies := Some acc' \<rparr>) (Uncaught e)
                   | (acc', None) \<Rightarrow>
                       (if pg_navbar_next pg = 0 \<or> p = pageLimit this then
                          Finished (this\<lparr> movies := Some acc' \<rparr>)
                            (Callback [ArgNull,
                               ArgResult \<lparr> r_location = loc, r_date = day,
                                           r_data = MoviesData acc' \<rparr>])
                        else
                          NextPage (this\<lparr> page := Some (p + 1), movies := Some acc' \<rparr>)
                            (p + 1) acc')))))"

partial_function (option) getMovies ::
  "env \<Rightarrow> api \<Rightarrow> ustring option \<Rightarrow> (int \<times> movie_entry list) option
     \<Rightarrow> request_options list \<Rightarrow> (api \<times> request_options list \<times> outcome) option" where
  "getMovies E this query extra sent =
     (let p = (case extra of None \<Rightarrow> 1 | Some x \<Rightarrow> fst x);
          acc = (case extra of None \<Rightarrow> [] | Some x \<Rightarrow> snd x);
          api = this\<lparr> page := Some p, movies := Some acc \<rparr>;
          sent' = sent @ [request_options_of api (MoviesParams query)]
      in case request E api (MoviesParams query) of
           Inl out \<Rightarrow> Some (api, sent', out)
         | Inr response \<Rightarrow>
             (case getMovies_handler E api p acc response of
                Finished api' out \<Rightarrow> Some (api', sent', out)
              | NextPage api' p' acc' \<Rightarrow> getMovies E api' query (Some (p', acc')) sent'))"

declare getMovies.simps [code]

subsection \<open>\<^verbatim>\<open>getTheater\<close> and \<^verbatim>\<open>getMovie\<close>\<close>

text \<open>
  Both make one request and load the body as it is. Their test \<^verbatim>\<open>!$('.showtimes')\<close> is
  false for every page (a selection is an object), so the branch under it is never
  taken. The result is the request and how the operation ended; the instance is not
  written to.
\<close>

definition getTheater :: "env \<Rightarrow> api \<Rightarrow> jsval \<Rightarrow> request_options \<times> outcome" where
  "getTheater E this theaterId =
     (request_options_of this (TheaterParams theaterId),
      (case request E this (TheaterParams theaterId) of
         Inl out \<Rightarrow> out
       | Inr response \<Rightarrow>
           (let pg = cheerio_load E response in
            case match_title (pg_title_bar_text pg) of
              None \<Rightarrow> Uncaught TypeError
            | Some loc \<Rightarrow>
                (case match_day (pg_left_nav_b_text pg) of
                   None \<Rightarrow> Uncaught TypeError
                 | Some day \<Rightarrow>
                     (case parseTheater E pg (pg_theater_all pg) theaterId of
                        Inl e \<Rightarrow> Uncaught e
                      | Inr theaterData \<Rightarrow>
                          Callback [ArgNull,
                            ArgResult \<lparr> r_location = loc, r_date = day,
                                        r_data = TheaterData theaterData \<rparr>])))))"

text \<open>
  In \<^verbatim>\<open>getMovie\<close>, \<^verbatim>\<open>movieData\<close> is \<^verbatim>\<open>false\<close> for a movie without a name:
  \<^verbatim>\<open>delete movieData.showtimes\<close> does nothing then, and \<^verbatim>\<open>movieData.theaters = []\<close>
  throws a TypeError (the file is in strict mode, where a property of a primitive
  cannot be created).
\<close>

definition getMovie :: "env \<Rightarrow> api \<Rightarrow> jsval \<Rightarrow> request_options \<times> outcome" where
  "getMovie E this movieId =
     (request_options_of this (MovieParams movieId),
      (case request E this (MovieParams movieId) of
         Inl out \<Rightarrow> out
       | Inr response \<Rightarrow>
           (let pg = cheerio_load E response in
            case parseMovie E pg (pg_movie_all pg) True movieId of
              Inl e \<Rightarrow> Uncaught e
            | Inr (movie', None) \<Rightarrow> Uncaught TypeError
            | Inr (movie', Some movieData) \<Rightarrow>
                (case each_alt_theater E pg (me_theaters movie') of
                   Inl e \<Rightarrow> Uncaught e
                 | Inr ts \<Rightarrow>
                     (case match_title (pg_title_bar_text pg) of
                        None \<Rightarrow> Uncaught TypeError
                      | Some loc \<Rightarrow>
                          (case match_day (pg_left_nav_b_text pg) of
                             None \<Rightarrow> Uncaught TypeError
                           | Some day \<Rightarrow>
                               Callback [ArgNull,
                                 ArgResult \<lparr> r_location = loc, r_date = day,
                                   r_data = MovieData
                                     \<lparr> e_movie = movieData\<lparr> m_showtimes := None \<rparr>,
                                       e_theaters = ts,
                                       e_more_theaters = False \<rparr> \<rparr>]))))))"

section \<open>Reference definitions\<close>

text \<open>
  Stripping and trimming, stated on their own and not through the functions of the
  program. \<open>ascii_only\<close> is a text with only its ASCII code units, in their order.
  \<open>trimmed\<close> is a text without the white space at its two ends; the code units that
  are white space are listed one by one.
\<close>

primrec ascii_only :: "ustring \<Rightarrow> ustring" where
  "ascii_only [] = []"
| "ascii_only (c # cs) = (if c < 128 then c # ascii_only cs else ascii_only cs)"

definition white_space_units :: "nat list" where
  "white_space_units =
     [9, 10, 11, 12, 13, 32, 160, 5760, 8192, 8193, 8194, 8195, 8196, 8197, 8198, 8199,
      8200, 8201, 8202, 8232, 8233, 8239, 8287, 12288, 65279]"

primrec strip_left :: "ustring \<Rightarrow> ustring" where
  "strip_left [] = []"
| "strip_left (c # cs) = (if c \<in> set white_space_units then strip_left cs else c # cs)"

primrec strip_right :: "ustring \<Rightarrow> ustring" where
  "strip_right [] = []"
| "strip_right (c # cs) =
     (case strip_right cs of
        [] \<Rightarrow> (if c \<in> set white_space_units then [] else [c])
      | r # rs \<Rightarrow> c # r # rs)"

definition trimmed :: "ustring \<Rightarrow> ustring" where
  "trimmed s = strip_right (strip_left s)"

text \<open>
  A literal occurs in a text when it stands at some place of it, code unit by code unit
  under a comparison: equality, or equality up to the case of an ASCII letter.
\<close>

definition same_letter :: "nat \<Rightarrow> nat \<Rightarrow> bool" where
  "same_letter a b =
     (a = b \<or> (65 \<le> a \<and> a \<le> 90 \<and> b = a + 32) \<or> (65 \<le> b \<and> b \<le> 90 \<and> a = b + 32))"

fun begins_by :: "(nat \<Rightarrow> nat \<Rightarrow> bool) \<Rightarrow> ustring \<Rightarrow> ustring \<Rightarrow> bool" where
  "begins_by eq [] s = True"
| "begins_by eq (p # ps) [] = False"
| "begins_by eq (p # ps) (c # cs) = (eq p c \<and> begins_by eq ps cs)"

fun occurs_by :: "(nat \<Rightarrow> nat \<Rightarrow> bool) \<Rightarrow> ustring \<Rightarrow> ustring \<Rightarrow> bool" where
  "occurs_by eq p [] = begins_by eq p []"
| "occurs_by eq p (c # cs) = (begins_by eq p (c # cs) \<or> occurs_by eq p cs)"

definition occurs :: "ustring \<Rightarrow> ustring \<Rightarrow> bool" where
  "occurs p s = occurs_by (=) p s"

definition occurs_any_case :: "ustring \<Rightarrow> ustring \<Rightarrow> bool" where
  "occurs_any_case p s = occurs_by same_letter p s"

text \<open>
  The meridiem rule as the specification words it. A token is first cleaned (non-ASCII
  code units removed, then trimmed); its marker is the first "am" or "pm" in it: the
  first "m" (109) that follows an "a" (97) or a "p" (112).
\<close>

definition clean_token :: "ustring \<Rightarrow> ustring" where
  "clean_token t = trimmed (ascii_only t)"

fun first_marker :: "ustring \<Rightarrow> ustring option" where
  "first_marker (a # b # cs) =
     (if b = 109 \<and> (a = 97 \<or> a = 112) then Some [a, b] else first_marker (b # cs))"
| "first_marker cs = None"

definition marker :: "ustring \<Rightarrow> ustring option" where
  "marker t = first_marker (clean_token t)"

text \<open>The marker of the nearest of the tokens \<open>ts\<close> that states one.\<close>

fun nearest_marker :: "ustring list \<Rightarrow> ustring option" where
  "nearest_marker [] = None"
| "nearest_marker (t # ts) =
     (case marker t of Some m \<Rightarrow> Some m | None \<Rightarrow> nearest_marker ts)"

text \<open>The token with the meridiem it inherits from the tokens \<open>later\<close> after it.\<close>

definition inherit :: "ustring \<Rightarrow> ustring list \<Rightarrow> ustring" where
  "inherit t later =
     (case marker t of
        Some m \<Rightarrow> clean_token t
      | None \<Rightarrow>
          (case nearest_marker later of
             Some m \<Rightarrow> clean_token t @ m
           | None \<Rightarrow> clean_token t))"

text \<open>
  The classification of the info tokens as the claims word it. A token states a duration
  when "hr " or "min" occurs in it; a genre candidate is a link label when "IMDB" or
  "Trailer" occurs in it, in any case of the letters; the genre of any other candidate is
  the list of the pieces between "/" of the trimmed candidate, each with only its ASCII
  code units.
\<close>

definition duration :: "ustring \<Rightarrow> bool" where
  "duration t = (occurs (js ''hr '') t \<or> occurs (js ''min'') t)"

definition link_label :: "ustring \<Rightarrow> bool" where
  "link_label t = (occurs_any_case (js ''IMDB'') t \<or> occurs_any_case (js ''Trailer'') t)"

definition candidate_genre :: "ustring \<Rightarrow> genre" where
  "candidate_genre t =
     (if link_label t then GenreFalse
      else GenreList (map ascii_only (split (js ''/'') (trimmed t))))"

text \<open>
  The info string of a movie fragment: the text of its info element; on a movie-first
  page the text of its last info element with " - " in the place of the first line
  break. Its tokens are the pieces between " - ".
\<close>

definition info_string :: "'a movie_frag_scheme \<Rightarrow> bool \<Rightarrow> ustring" where
  "info_string movie alternate =
     (if alternate then
        (case mv_last_info movie of None \<Rightarrow> [] | Some content \<Rightarrow> info_text (replace_br content))
      else mv_info_text movie)"

definition info_tokens :: "'a movie_frag_scheme \<Rightarrow> bool \<Rightarrow> ustring list" where
  "info_tokens movie alternate = split (js '' - '') (info_string movie alternate)"

text \<open>
  The genre token among the tokens: token 0 when it states no duration; otherwise
  token 2 when "Rated" occurs in token 1 (none when there is no token 2), and token 1
  when it does not (the empty text when there is no token 1).
\<close>

fun genre_token :: "ustring list \<Rightarrow> ustring option" where
  "genre_token [] = None"
| "genre_token [t0] = (if duration t0 then Some [] else Some t0)"
| "genre_token (t0 # t1 # rest) =
     (if \<not> duration t0 then Some t0
      else if occurs (js ''Rated'') t1 then (case rest of [] \<Rightarrow> None | t2 # x \<Rightarrow> Some t2)
      else Some t1)"

text \<open>
  The page number and the records so far of a call of a paginated operation: 1 and none
  for a call from outside, the hidden arguments for a call the operation makes itself.
\<close>

definition page_no :: "(int \<times> 'r list) option \<Rightarrow> int" where
  "page_no extra = (case extra of None \<Rightarrow> 1 | Some x \<Rightarrow> fst x)"

definition so_far :: "(int \<times> 'r list) option \<Rightarrow> 'r list" where
  "so_far extra = (case extra of None \<Rightarrow> [] | Some x \<Rightarrow> snd x)"

text \<open>
  \<^verbatim>\<open>_parseMovie\<close> applied twice in succession to one fragment: the second call works on
  the fragment as the first one left it. The result is the two returned values.
\<close>

definition parseMovie_twice ::
  "env \<Rightarrow> page \<Rightarrow> 'a movie_frag_scheme \<Rightarrow> bool \<Rightarrow> jsval
     \<Rightarrow> exn + (movie_data option \<times> movie_data option)" where
  "parseMovie_twice E pg movie alternate movieId =
     (case parseMovie E pg movie alternate movieId of
        Inl e \<Rightarrow> Inl e
      | Inr (movie', first) \<Rightarrow>
          (case parseMovie E pg movie' alternate movieId of
             Inl e \<Rightarrow> Inl e
           | Inr (movie'', second) \<Rightarrow> Inr (first, second)))"

text \<open>
  The error-first convention of the callback, as the code follows it in \<^verbatim>\<open>cb(error)\<close> and
  \<^verbatim>\<open>cb(null, {...})\<close>: the first argument is the error, the second the data.
\<close>

definition cb_error :: "outcome \<Rightarrow> cb_arg option" where
  "cb_error out = (case out of Callback (e # rest) \<Rightarrow> Some e | _ \<Rightarrow> None)"

definition cb_data :: "outcome \<Rightarrow> cb_arg option" where
  "cb_data out = (case out of Callback (e # d # rest) \<Rightarrow> Some d | _ \<Rightarrow> None)"

text \<open>
  Pagination. \<open>fetched_page E this ps i\<close> is the page a paginated operation loads as its
  page number \<open>i + 1\<close> (None when the fetch fails or its status is not 200).
  \<open>theater_pages E this query N\<close> says that the server holds N result pages of theaters
  for the query: every one of them is fetched with status 200, has a theater fragment,
  a title and a day that match, theaters that parse without an exception, and shows
  "Next" exactly when it is not the last. \<open>movie_pages\<close> is the same for \<^verbatim>\<open>getMovies\<close>.
\<close>

definition fetched_page :: "env \<Rightarrow> api \<Rightarrow> params \<Rightarrow> nat \<Rightarrow> page option" where
  "fetched_page E this ps i =
     (case request E (this\<lparr> page := Some (int i + 1) \<rparr>) ps of
        Inl out \<Rightarrow> None
      | Inr body \<Rightarrow> Some (cheerio_load E (decode_response this body)))"

definition theater_pages :: "env \<Rightarrow> api \<Rightarrow> ustring option \<Rightarrow> nat \<Rightarrow> bool" where
  "theater_pages E this query N =
     list_all
       (\<lambda>i. case fetched_page E this (TheatersParams query) i of
               None \<Rightarrow> False
             | Some pg \<Rightarrow>
                 pg_theater pg \<noteq> [] \<and>
                 match_title (pg_title_bar_text pg) \<noteq> None \<and>
                 match_day (pg_left_nav_b_text pg) \<noteq> None \<and>
                 snd (each_theater E pg (pg_theater pg) []) = None \<and>
                 (0 < pg_navbar_next pg) = (Suc i < N))
       [0..<N]"

definition movie_pages :: "env \<Rightarrow> api \<Rightarrow> ustring option \<Rightarrow> nat \<Rightarrow> bool" where
  "movie_pages E this query N =
     list_all
       (\<lambda>i. case fetched_page E this (MoviesParams query) i of
               None \<Rightarrow> False
             | Some pg \<Rightarrow>
                 pg_movie pg \<noteq> [] \<and>
                 match_title (pg_title_bar_text pg) \<noteq> None \<and>
                 match_day (pg_left_nav_b_text pg) \<noteq> None \<and>
                 snd (each_movie_elem E pg (pg_movie pg) []) = None \<and>
                 (0 < pg_navbar_next pg) = (Suc i < N))
       [0..<N]"

text \<open>The fragments with a name on a page, and their number on the first M pages.\<close>

definition named_theaters :: "page \<Rightarrow> nat" where
  "named_theaters pg = length (filter (\<lambda>t. th_desc_name_text t \<noteq> []) (pg_theater pg))"

definition named_movies :: "page \<Rightarrow> nat" where
  "named_movies pg = length (filter (\<lambda>m. mv_h2_name_text m \<noteq> []) (pg_movie pg))"

definition named_on :: "(page \<Rightarrow> nat) \<Rightarrow> env \<Rightarrow> api \<Rightarrow> params \<Rightarrow> nat \<Rightarrow> nat" where
  "named_on count E this ps M =
     sum_list (map (\<lambda>i. case fetched_page E this ps i of None \<Rightarrow> 0 | Some pg \<Rightarrow> count pg)
                   [0..<M])"

text \<open>
  The number of fetches over N pages under the page limit: the limit when it is a page
  number before the last page, N otherwise.
\<close>

definition fetches :: "int \<Rightarrow> nat \<Rightarrow> nat" where
  "fetches limit N = (if 1 \<le> limit \<and> limit < int N then nat limit else N)"


section \<open>An environment for the examples\<close>

text \<open>
  The two Node functions on links without escapes: the query is the text between the
  first "?" and the "#"; a key's value is what follows "key=" in the pieces between
  "&" (an array when the key comes more than once).
\<close>

definition plain_url_query :: "ustring \<Rightarrow> ustring option" where
  "plain_url_query s =
     (let r = dropWhile (\<lambda>c. c \<noteq> 63) (takeWhile (\<lambda>c. c \<noteq> 35) s)
      in if r = [] then None else Some (tl r))"

definition plain_qs_lookup :: "ustring \<Rightarrow> ustring \<Rightarrow> jsval" where
  "plain_qs_lookup s k =
     (case map (drop (Suc (length k)))
             (filter (starts_with (k @ js ''='')) (split (js ''&'') s)) of
        [] \<Rightarrow> JUndefined
      | [v] \<Rightarrow> JStr v
      | vs \<Rightarrow> JArr vs)"

text \<open>Empty fragments and an empty page, from which the examples are built.\<close>

definition no_times :: times_frag where
  "no_times = \<lparr> times_a_fl = [], times_text = [] \<rparr>"

definition blank_movie :: movie_frag where
  "blank_movie =
     \<lparr> mv_name_text = [], mv_h2_name_text = [], mv_name_a_href = None,
       mv_h2_name_a_href = None, mv_info_text = [], mv_last_info = None,
       mv_imdb_a = [], mv_trailer_a = [], mv_description_text = [],
       mv_synopsis_second = [], mv_times = no_times \<rparr>"

definition blank_movie_elem :: movie_elem where
  "blank_movie_elem =
     \<lparr> mv_name_text = [], mv_h2_name_text = [], mv_name_a_href = None,
       mv_h2_name_a_href = None, mv_info_text = [], mv_last_info = None,
       mv_imdb_a = [], mv_trailer_a = [], mv_description_text = [],
       mv_synopsis_second = [], mv_times = no_times,
       me_theaters = [], me_show_more = 0 \<rparr>"

definition blank_theater :: theater_frag where
  "blank_theater =
     \<lparr> th_name_a_href = None, th_desc_name_a_href = None, th_desc_info_text = [],
       th_name_text = [], th_address_text = [], th_desc_name_text = [],
       th_times = no_times, th_movies = [] \<rparr>"

definition blank_page :: page where
  "blank_page =
     \<lparr> pg_theater = [], pg_theater_all = blank_theater, pg_movie = [],
       pg_movie_all = blank_movie_elem, pg_results_text = [],
       pg_title_bar_text = js ''Showtimes for Springfield'',
       pg_left_nav_b_text = 8250 # js '' Today'',
       pg_left_nav_a_href = None, pg_navbar_next = 0 \<rparr>"

text \<open>A server that answers every request with the body "x", loaded as \<open>pg\<close>.\<close>

definition serve :: "page \<Rightarrow> env" where
  "serve pg =
     \<lparr> http = (\<lambda>rq. Response 200 (js ''x'')), cheerio_load = (\<lambda>body. pg),
       url_query_of = plain_url_query, qs_lookup = plain_qs_lookup \<rparr>"






text \<open>Movies of a theater-first page.\<close>

definition documentary :: movie_frag where
  "documentary =
     blank_movie\<lparr> mv_name_text := js ''Samsara'',
                  mv_name_a_href := Some (js ''/movies?near=x&mid=abc''),
                  mv_info_text := js ''Documentary'' \<rparr>"

text \<open>
  A movie whose name and info string carry an accented letter (233) and left-to-right
  marks (8206), and whose info string ends in the two link labels.
\<close>

definition dubbed :: movie_frag where
  "dubbed =
     blank_movie\<lparr> mv_name_text := js ''Am'' @ [233] @ js ''lie'',
                  mv_name_a_href := Some (js ''/movies?near=x&mid=m2''),
                  mv_info_text :=
                    8206 # js ''2hr 2min'' @ [8206] @ js '' - Rated R'' @ [8206] @
                    js '' - Com'' @ [233] @ js ''die/Romance'' @ [8206] @
                    js '' - Trailer - IMDb'' \<rparr>"

text \<open>
  Movies of a movie-first page: the info element with one line break and with two, the
  second panel with one child element and with two.
\<close>

definition one_break :: movie_elem where
  "one_break =
     blank_movie_elem\<lparr>
       mv_h2_name_text := js ''Big Hero 6'',
       mv_last_info :=
         Some [IText (js ''1hr 48min - Rated PG - Animation''), IBr,
               IText (js ''Director: Don Hall - Cast: Ryan Potter, Scott Adsit'')],
       mv_description_text := js ''A boy and his robot. '',
       mv_synopsis_second := [SText (js ''They save the city.''), SElem (js ''less'')] \<rparr>"


text \<open>Instances: the defaults, and the Turkish language.\<close>

definition fresh :: api where
  "fresh =
     Showtimes (js ''Springfield'')
       \<lparr> opt_date = None, opt_lang = None, opt_pageLimit = None \<rparr>"

definition turkish :: api where
  "turkish =
     Showtimes (js ''Ankara'')
       \<lparr> opt_date = None, opt_lang = Some (js ''tr''), opt_pageLimit = None \<rparr>"

text \<open>
  Two theaters, a first page that shows "Next" and a second that does not, and a server
  that answers the offset 10 with the second page and every other request with the
  first.
\<close>

definition rialto :: theater_frag where
  "rialto =
     blank_theater\<lparr> th_desc_name_text := js ''Rialto'',
                    th_desc_name_a_href := Some (js ''/movies?near=x&tid=ABC123''),
                    th_desc_info_text := js ''1 Main St - (555) 123-4567'' \<rparr>"

definition odeon :: theater_frag where
  "odeon =
     blank_theater\<lparr> th_desc_name_text := js ''Odeon'',
                    th_desc_info_text := js ''2 High St'' \<rparr>"

definition page_one :: page where
  "page_one =
     blank_page\<lparr> pg_theater := [rialto], pg_theater_all := rialto, pg_navbar_next := 1 \<rparr>"

definition page_two :: page where
  "page_two = blank_page\<lparr> pg_theater := [odeon], pg_theater_all := odeon \<rparr>"

definition two_pages :: env where
  "two_pages =
     \<lparr> http = (\<lambda>rq. if rq_start rq = Some 10 then Response 200 (js ''2'')
                      else Response 200 (js ''1'')),
       cheerio_load = (\<lambda>body. if body = js ''2'' then page_two else page_one),
       url_query_of = plain_url_query, qs_lookup = plain_qs_lookup \<rparr>"

text \<open>
  A server that answers every request with \<open>reply\<close>, and a loader under which the
  page's one theater and its one movie have the loaded text as their name.
\<close>

definition echo_page :: "ustring \<Rightarrow> page" where
  "echo_page body =
     blank_page\<lparr>
       pg_theater := [blank_theater\<lparr> th_desc_name_text := body \<rparr>],
       pg_theater_all := blank_theater\<lparr> th_desc_name_text := body \<rparr>,
       pg_movie := [blank_movie_elem\<lparr> mv_h2_name_text := body, mv_last_info := Some [] \<rparr>],
       pg_movie_all := blank_movie_elem\<lparr> mv_h2_name_text := body, mv_last_info := Some [] \<rparr> \<rparr>"

definition echo :: "ustring \<Rightarrow> env" where
  "echo reply =
     \<lparr> http = (\<lambda>rq. Response 200 reply), cheerio_load = echo_page,
       url_query_of = plain_url_query, qs_lookup = plain_qs_lookup \<rparr>"

text \<open>Servers that refuse the connection, and that answer with status 404.\<close>

definition refusing :: env where
  "refusing =
     \<lparr> http = (\<lambda>rq. Failed (RequestError (js ''ECONNREFUSED''))), cheerio_load = (\<lambda>body. blank_page),
       url_query_of = plain_url_query, qs_lookup = plain_qs_lookup \<rparr>"

definition not_found :: env where
  "not_found =
     \<lparr> http = (\<lambda>rq. Response 404 (js ''x'')), cheerio_load = (\<lambda>body. blank_page),
       url_query_of = plain_url_query, qs_lookup = plain_qs_lookup \<rparr>"

text \<open>A page without theaters and movies that reports so.\<close>

definition no_results :: page where
  "no_results = blank_page\<lparr> pg_results_text := js ''No showtimes were found.'' \<rparr>"

text \<open>
  A server whose first page of theaters shows "Next" and whose second page, the one at
  the offset 10, has no theater and reports so.
\<close>

definition then_empty :: env where
  "then_empty =
     \<lparr> http = (\<lambda>rq. if rq_start rq = Some 10 then Response 200 (js ''2'')
                      else Response 200 (js ''1'')),
       cheerio_load = (\<lambda>body. if body = js ''2'' then no_results else page_one),
       url_query_of = plain_url_query, qs_lookup = plain_qs_lookup \<rparr>"

text \<open>An instance with the page limit 0.\<close>

definition limit_zero :: api where
  "limit_zero =
     Showtimes (js ''Springfield'')
       \<lparr> opt_date = None, opt_lang = None, opt_pageLimit = Some 0 \<rparr>"

text \<open>
  A server with a thousand pages of theaters: every page but the thousandth, the one at
  the offset 9990, shows "Next".
\<close>

definition thousand :: env where
  "thousand =
     \<lparr> http = (\<lambda>rq. Response 200 (if rq_start rq = Some 9990 then js ''last'' else js ''more'')),
       cheerio_load =
         (\<lambda>body. page_two\<lparr> pg_navbar_next := (if body = js ''last'' then 0 else 1) \<rparr>),
       url_query_of = plain_url_query, qs_lookup = plain_qs_lookup \<rparr>"

text \<open>A movie-first page with two movies, one of them without a name.\<close>

definition movie_page :: page where
  "movie_page =
     blank_page\<lparr> pg_movie := [blank_movie_elem, one_break],
                  pg_left_nav_a_href := Some (js ''/movies?near=x&mid=m1'') \<rparr>"

section \<open>Proofs\<close>

lemmas str_eval = js_def starts_with_def removeNonAsciiCharacters_def
  removeNonAsciiCharacters_array_def trim_def is_white_space_def is_line_terminator_def
  split_def

subsection \<open>The string functions and their reference forms\<close>

lemma removeNonAsciiCharacters_ascii_only: "removeNonAsciiCharacters s = ascii_only s"
  by (induction s) (auto simp: removeNonAsciiCharacters_def)

lemma range_units:
  "(8192 \<le> c \<and> c \<le> 8202) =
     (c = 8192 \<or> c = 8193 \<or> c = 8194 \<or> c = 8195 \<or> c = 8196 \<or> c = 8197 \<or>
      c = 8198 \<or> c = 8199 \<or> c = 8200 \<or> c = 8201 \<or> c = (8202::nat))"
  by arith

lemma white_space_units: "is_white_space c = (c \<in> set white_space_units)"
  unfolding is_white_space_def is_line_terminator_def white_space_units_def range_units
  by (simp only: list.set insert_iff empty_iff) blast

lemma dropWhile_strip_left: "dropWhile is_white_space s = strip_left s"
  by (induction s) (simp_all add: white_space_units)

lemma rev_dropWhile_strip_right: "rev (dropWhile is_white_space (rev s)) = strip_right s"
proof (induction s)
  case Nil
  then show ?case by simp
next
  case (Cons c cs)
  show ?case
  proof (cases "\<forall>x \<in> set (rev cs). is_white_space x")
    case True
    then have d: "dropWhile is_white_space (rev cs) = []"
      by (simp add: dropWhile_eq_Nil_conv)
    have e: "strip_right cs = []" using Cons.IH unfolding d by simp
    have "dropWhile is_white_space (rev cs @ [c]) = dropWhile is_white_space [c]"
      by (rule dropWhile_append2) (use True in auto)
    then have l: "rev (dropWhile is_white_space (rev (c # cs))) =
                    (if is_white_space c then [] else [c])"
      by simp
    have r: "strip_right (c # cs) = (if is_white_space c then [] else [c])"
      using e by (simp add: white_space_units)
    show ?thesis by (simp only: l r)
  next
    case False
    then have n: "dropWhile is_white_space (rev cs) \<noteq> []"
      by (simp add: dropWhile_eq_Nil_conv)
    have e: "strip_right cs \<noteq> []" using Cons.IH n by (metis rev_is_Nil_conv)
    from False obtain x where "x \<in> set (rev cs)" "\<not> is_white_space x" by blast
    then have "dropWhile is_white_space (rev cs @ [c]) = dropWhile is_white_space (rev cs) @ [c]"
      by (rule dropWhile_append1)
    then have l: "rev (dropWhile is_white_space (rev (c # cs))) =
                    c # rev (dropWhile is_white_space (rev cs))"
      by simp
    have r: "strip_right (c # cs) = c # strip_right cs"
      using e by (cases "strip_right cs") simp_all
    show ?thesis by (simp only: l r Cons.IH)
  qed
qed

lemma trim_trimmed: "trim s = trimmed s"
  by (simp only: trim_def trimmed_def rev_dropWhile_strip_right) (simp only: dropWhile_strip_left)

lemma starts_with_begins_by: "starts_with p s = begins_by (=) p s"
  by (induction "(=) :: nat \<Rightarrow> nat \<Rightarrow> bool" p s rule: begins_by.induct)
     (auto simp: starts_with_def)

lemma first_alt_None: "(first_alt alts s \<noteq> None) = (\<exists>p \<in> set alts. begins_by (=) p s)"
  by (induction alts) (auto simp: starts_with_begins_by)

lemma match_alt_occurs: "(match_alt alts s \<noteq> None) = (\<exists>p \<in> set alts. occurs p s)"
proof (induction s)
  case Nil
  then show ?case using first_alt_None[of alts "[]"] by (simp add: occurs_def)
next
  case (Cons c cs)
  then show ?case using first_alt_None[of alts "c # cs"]
    by (auto simp: occurs_def split: option.splits)
qed

lemma canonicalize_same_letter: "(canonicalize a = canonicalize b) = same_letter a b"
  by (auto simp: canonicalize_def same_letter_def)

lemma same_letter_commute: "same_letter a b = same_letter b a"
  by (auto simp: same_letter_def)

lemma starts_with_canonical:
  "starts_with (map canonicalize p) (map canonicalize s) = begins_by same_letter p s"
  by (induction same_letter p s rule: begins_by.induct)
     (auto simp: starts_with_def canonicalize_same_letter same_letter_commute)

lemma first_alt_canonical:
  "(first_alt (map (map canonicalize) alts) (map canonicalize s) \<noteq> None) =
     (\<exists>p \<in> set alts. begins_by same_letter p s)"
  by (induction alts) (auto simp: starts_with_canonical)

lemma match_alt_i_occurs: "match_alt_i alts s = (\<exists>p \<in> set alts. occurs_any_case p s)"
  unfolding match_alt_i_def
proof (induction s)
  case Nil
  then show ?case using first_alt_canonical[of alts "[]"] by (simp add: occurs_any_case_def)
next
  case (Cons c cs)
  then show ?case using first_alt_canonical[of alts "c # cs"]
    by (auto simp: occurs_any_case_def split: option.splits)
qed





lemmas ref_eval = inherit_def marker_def clean_token_def trimmed_def white_space_units_def
  occurs_def occurs_any_case_def same_letter_def duration_def link_label_def
  candidate_genre_def

subsection \<open>Meridiem back-inference\<close>

















subsection \<open>Runtime, rating and genre\<close>

lemmas info_eval = parseMovie_info_def nth_opt_def genre_ascii_def genre_candidate_def
  match_alt_i_def canonicalize_def

lemma duration_match: "(match_alt [js ''hr '', js ''min''] t = None) = (\<not> duration t)"
  using match_alt_occurs[of "[js ''hr '', js ''min'']" t] by (auto simp: duration_def)

lemma rated_match: "(match_alt [js ''Rated''] t = None) = (\<not> occurs (js ''Rated'') t)"
  using match_alt_occurs[of "[js ''Rated'']" t] by auto

lemma link_label_match: "match_alt_i [js ''IMDB'', js ''Trailer''] t = link_label t"
  using match_alt_i_occurs[of "[js ''IMDB'', js ''Trailer'']" t] by (simp add: link_label_def)

lemma genre_of_candidate: "genre_ascii (genre_candidate t) = candidate_genre t"
proof -
  have "removeNonAsciiCharacters_array xs = map ascii_only xs" for xs
    by (simp add: removeNonAsciiCharacters_array_def removeNonAsciiCharacters_ascii_only)
  then show ?thesis
    by (simp add: genre_ascii_def genre_candidate_def candidate_genre_def link_label_match
          trim_trimmed)
qed

lemma genre_of_text: "genre_ascii (GenreText s) = GenreText (ascii_only s)"
  by (simp add: genre_ascii_def removeNonAsciiCharacters_ascii_only)

lemma info_no_duration:
  assumes "\<not> duration t0"
  shows "parseMovie_info (t0 # rest) = Inr (None, None, GenreText (ascii_only (trimmed t0)))"
proof -
  have "match_alt [js ''hr '', js ''min''] t0 = None"
    using assms by (simp add: duration_match)
  then show ?thesis
    by (simp add: parseMovie_info_def nth_opt_def genre_of_text trim_trimmed)
qed

lemma match_alt_single_prefix: "p \<noteq> [] \<Longrightarrow> starts_with p s \<Longrightarrow> match_alt [p] s = Some p"
  by (cases s) (auto simp: starts_with_def)

lemma replace_first_prefix:
  "p \<noteq> [] \<Longrightarrow> starts_with p s \<Longrightarrow> replace_first p r s = r @ drop (length p) s"
  by (cases s) (auto simp: starts_with_def)

lemma starts_with_append:
  assumes "starts_with (p @ q) s"
  shows "starts_with p s" and "drop (length p) s = q @ drop (length (p @ q)) s"
proof -
  have "s = (p @ q) @ drop (length (p @ q)) s"
    using assms by (metis append_take_drop_id starts_with_def)
  then obtain d where s: "s = p @ q @ d" and d: "d = drop (length (p @ q)) s" by simp
  show "starts_with p s" by (subst s) (simp add: starts_with_def)
  have "drop (length p) s = q @ d" by (subst s) simp
  then show "drop (length p) s = q @ drop (length (p @ q)) s" using d by simp
qed

text \<open>A token with the prefix "Rated ": the rating is what follows the prefix, trimmed.\<close>

lemma rated_prefix:
  assumes "starts_with (js ''Rated '') t1"
  shows "occurs (js ''Rated'') t1"
    and "trimmed (replace_first (js ''Rated'') [] t1) = trimmed (drop (length (js ''Rated '')) t1)"
proof -
  have e: "js ''Rated '' = js ''Rated'' @ [32]" by (simp add: js_def)
  have ne: "js ''Rated'' \<noteq> []" by (simp add: js_def)
  from assms have a: "starts_with (js ''Rated'' @ [32]) t1" by (simp only: e)
  note s5 = starts_with_append(1)[OF a]
  have d: "drop (length (js ''Rated'')) t1 = [32] @ drop (length (js ''Rated '')) t1"
    using starts_with_append(2)[OF a] by (simp only: e)
  have "match_alt [js ''Rated''] t1 = Some (js ''Rated'')"
    by (rule match_alt_single_prefix[OF ne s5])
  then show "occurs (js ''Rated'') t1"
    using rated_match[of t1] by simp
  have "replace_first (js ''Rated'') [] t1 = 32 # drop (length (js ''Rated '')) t1"
    using replace_first_prefix[OF ne s5, of "[]"] d by simp
  then show "trimmed (replace_first (js ''Rated'') [] t1) =
             trimmed (drop (length (js ''Rated '')) t1)"
    by (simp add: trimmed_def white_space_units_def)
qed

lemma info_with_duration:
  assumes "duration t0"
  shows "parseMovie_info [t0] = Inr (Some (ascii_only (trimmed t0)), None, candidate_genre [])"
    and "occurs (js ''Rated'') t1 \<Longrightarrow>
         parseMovie_info (t0 # t1 # rest) =
           Inr (Some (ascii_only (trimmed t0)),
                Some (ascii_only (trimmed (replace_first (js ''Rated'') [] t1))),
                (case rest of [] \<Rightarrow> GenreFalse | t2 # x \<Rightarrow> candidate_genre t2))"
    and "\<not> occurs (js ''Rated'') t1 \<Longrightarrow>
         parseMovie_info (t0 # t1 # rest) =
           Inr (Some (ascii_only (trimmed t0)), None, candidate_genre t1)"
proof -
  from assms obtain m where m: "match_alt [js ''hr '', js ''min''] t0 = Some m"
    using duration_match[of t0] by auto
  have e: "match_alt [js ''Rated''] [] = None"
    by (simp add: js_def starts_with_def)
  show "parseMovie_info [t0] = Inr (Some (ascii_only (trimmed t0)), None, candidate_genre [])"
    using m e
    by (simp add: parseMovie_info_def nth_opt_def genre_of_candidate trim_trimmed
          removeNonAsciiCharacters_ascii_only)
  show "parseMovie_info (t0 # t1 # rest) =
           Inr (Some (ascii_only (trimmed t0)),
                Some (ascii_only (trimmed (replace_first (js ''Rated'') [] t1))),
                (case rest of [] \<Rightarrow> GenreFalse | t2 # x \<Rightarrow> candidate_genre t2))"
    if "occurs (js ''Rated'') t1"
  proof -
    from that obtain r where "match_alt [js ''Rated''] t1 = Some r"
      using rated_match[of t1] by auto
    then show ?thesis using m
      by (cases rest)
         (simp_all add: parseMovie_info_def nth_opt_def genre_of_candidate trim_trimmed
            removeNonAsciiCharacters_ascii_only)
  qed
  show "parseMovie_info (t0 # t1 # rest) =
           Inr (Some (ascii_only (trimmed t0)), None, candidate_genre t1)"
    if "\<not> occurs (js ''Rated'') t1"
  proof -
    from that have "match_alt [js ''Rated''] t1 = None"
      by (simp add: rated_match)
    then show ?thesis using m
      by (simp add: parseMovie_info_def nth_opt_def genre_of_candidate trim_trimmed
            removeNonAsciiCharacters_ascii_only)
  qed
qed

lemma info_fixture_full:
  "parseMovie_info (split (js '' - '') (js ''1 hr 45 min - Rated PG-13 - Action/Adventure'')) =
     Inr (Some (js ''1 hr 45 min''), Some (js ''PG-13''),
          GenreList [js ''Action'', js ''Adventure''])"
  by (simp add: info_eval str_eval)

lemma info_fixture_trailer:
  "parseMovie_info (split (js '' - '') (js ''1 hr 45 min - Trailer'')) =
     Inr (Some (js ''1 hr 45 min''), None, GenreFalse)"
  by (simp add: info_eval str_eval)

lemma info_fixture_documentary:
  "parseMovie_info (split (js '' - '') (js ''Documentary'')) =
     Inr (None, None, GenreText (js ''Documentary''))"
  by (simp add: info_eval str_eval)

lemma info_fixture_label:
  "parseMovie_info (split (js '' - '') (js ''1 hr 45 min - IMDb'')) =
     Inr (Some (js ''1 hr 45 min''), None, GenreFalse)"
  by (simp add: info_eval str_eval)

lemma info_fixture_marked:
  "parseMovie_info
     (split (js '' - '')
        (8206 # js ''1 hr 45 min'' @ [8206] @ js '' - Rated PG-13'' @ [8206] @
         js '' - Com'' @ [233] @ js ''die/Drame'' @ [8206] @ js '' - trailer'')) =
     Inr (Some (js ''1 hr 45 min''), Some (js ''PG-13''),
          GenreList [js ''Comdie'', js ''Drame''])"
  by (simp add: info_eval str_eval)

text \<open>
  C2, as the claim states it, fails: the rating does not ask for the prefix "Rated ".
  In "1 hr 45 min - Not Rated - Drama" token 1 does not carry the prefix, yet the rating
  is "Not" (the token without its "Rated", trimmed) and the genre comes from token 2.
\<close>

theorem parseMovie_info_rated_counterexample:
  "\<not> starts_with (js ''Rated '') (js ''Not Rated'') \<and>
   split (js '' - '') (js ''1 hr 45 min - Not Rated - Drama'') =
     [js ''1 hr 45 min'', js ''Not Rated'', js ''Drama''] \<and>
   parseMovie_info (split (js '' - '') (js ''1 hr 45 min - Not Rated - Drama'')) =
     Inr (Some (js ''1 hr 45 min''), Some (js ''Not''), GenreList [js ''Drama''])"
  by (simp add: info_eval str_eval)

text \<open>
  C2, amended. For the tokens of a movie's info string (the string split on " - "):
  if token 0 states no duration ("hr " or "min"), runtime and rating are absent and the
  genre is the text of token 0, trimmed and with only its ASCII code units, not split.
  If it states one, the runtime is token 0, trimmed and with only its ASCII code units.
  Then a token 1 in which "Rated" occurs gives the rating: the token without its first
  "Rated", trimmed and with only its ASCII code units (for a token with the prefix
  "Rated " that is the text after the prefix), and the genre candidate is token 2
  (the genre is absent when there is none); a token 1 in which "Rated" does not occur,
  or a missing one, gives no rating and is itself the genre candidate (the empty text
  when it is missing). A candidate in which IMDB or Trailer occurs, in any case of the
  letters, gives an absent genre; any other gives the list of the pieces of the trimmed
  candidate between "/", each with only its ASCII code units. The three fixtures of the
  claim hold, the label "IMDb" gives an absent genre, and an info string with
  left-to-right marks and an accented letter comes out with ASCII fields.
\<close>

theorem parseMovie_info_tokens:
  "(\<not> duration t0 \<longrightarrow>
      parseMovie_info (t0 # rest) = Inr (None, None, GenreText (ascii_only (trimmed t0)))) \<and>
   (duration t0 \<longrightarrow>
      parseMovie_info [t0] = Inr (Some (ascii_only (trimmed t0)), None, candidate_genre []) \<and>
      (occurs (js ''Rated'') t1 \<longrightarrow>
         parseMovie_info (t0 # t1 # rest) =
           Inr (Some (ascii_only (trimmed t0)),
                Some (ascii_only (trimmed (replace_first (js ''Rated'') [] t1))),
                (case rest of [] \<Rightarrow> GenreFalse | t2 # x \<Rightarrow> candidate_genre t2))) \<and>
      (starts_with (js ''Rated '') t1 \<longrightarrow>
         parseMovie_info (t0 # t1 # rest) =
           Inr (Some (ascii_only (trimmed t0)),
                Some (ascii_only (trimmed (drop (length (js ''Rated '')) t1))),
                (case rest of [] \<Rightarrow> GenreFalse | t2 # x \<Rightarrow> candidate_genre t2))) \<and>
      (\<not> occurs (js ''Rated'') t1 \<longrightarrow>
         parseMovie_info (t0 # t1 # rest) =
           Inr (Some (ascii_only (trimmed t0)), None, candidate_genre t1))) \<and>
   parseMovie_info (split (js '' - '') (js ''1 hr 45 min - Rated PG-13 - Action/Adventure'')) =
     Inr (Some (js ''1 hr 45 min''), Some (js ''PG-13''),
          GenreList [js ''Action'', js ''Adventure'']) \<and>
   parseMovie_info (split (js '' - '') (js ''1 hr 45 min - Trailer'')) =
     Inr (Some (js ''1 hr 45 min''), None, GenreFalse) \<and>
   parseMovie_info (split (js '' - '') (js ''Documentary'')) =
     Inr (None, None, GenreText (js ''Documentary'')) \<and>
   parseMovie_info (split (js '' - '') (js ''1 hr 45 min - IMDb'')) =
     Inr (Some (js ''1 hr 45 min''), None, GenreFalse) \<and>
   parseMovie_info
     (split (js '' - '')
        (8206 # js ''1 hr 45 min'' @ [8206] @ js '' - Rated PG-13'' @ [8206] @
         js '' - Com'' @ [233] @ js ''die/Drame'' @ [8206] @ js '' - trailer'')) =
     Inr (Some (js ''1 hr 45 min''), Some (js ''PG-13''),
          GenreList [js ''Comdie'', js ''Drame''])"
proof -
  have a: "\<not> duration t0 \<longrightarrow>
      parseMovie_info (t0 # rest) = Inr (None, None, GenreText (ascii_only (trimmed t0)))"
    by (simp add: info_no_duration)
  have b: "duration t0 \<longrightarrow>
      parseMovie_info [t0] = Inr (Some (ascii_only (trimmed t0)), None, candidate_genre []) \<and>
      (occurs (js ''Rated'') t1 \<longrightarrow>
         parseMovie_info (t0 # t1 # rest) =
           Inr (Some (ascii_only (trimmed t0)),
                Some (ascii_only (trimmed (replace_first (js ''Rated'') [] t1))),
                (case rest of [] \<Rightarrow> GenreFalse | t2 # x \<Rightarrow> candidate_genre t2))) \<and>
      (starts_with (js ''Rated '') t1 \<longrightarrow>
         parseMovie_info (t0 # t1 # rest) =
           Inr (Some (ascii_only (trimmed t0)),
                Some (ascii_only (trimmed (drop (length (js ''Rated '')) t1))),
                (case rest of [] \<Rightarrow> GenreFalse | t2 # x \<Rightarrow> candidate_genre t2))) \<and>
      (\<not> occurs (js ''Rated'') t1 \<longrightarrow>
         parseMovie_info (t0 # t1 # rest) =
           Inr (Some (ascii_only (trimmed t0)), None, candidate_genre t1))"
  proof (intro impI conjI)
    assume m: "duration t0"
    show "parseMovie_info [t0] =
        Inr (Some (ascii_only (trimmed t0)), None, candidate_genre [])"
      by (rule info_with_duration(1)[OF m])
    show "parseMovie_info (t0 # t1 # rest) =
           Inr (Some (ascii_only (trimmed t0)),
                Some (ascii_only (trimmed (replace_first (js ''Rated'') [] t1))),
                (case rest of [] \<Rightarrow> GenreFalse | t2 # x \<Rightarrow> candidate_genre t2))"
      if "occurs (js ''Rated'') t1"
      by (rule info_with_duration(2)[OF m that])
    show "parseMovie_info (t0 # t1 # rest) =
           Inr (Some (ascii_only (trimmed t0)),
                Some (ascii_only (trimmed (drop (length (js ''Rated '')) t1))),
                (case rest of [] \<Rightarrow> GenreFalse | t2 # x \<Rightarrow> candidate_genre t2))"
      if "starts_with (js ''Rated '') t1"
      using info_with_duration(2)[OF m rated_prefix(1)[OF that]] rated_prefix(2)[OF that]
      by simp
    show "parseMovie_info (t0 # t1 # rest) =
           Inr (Some (ascii_only (trimmed t0)), None, candidate_genre t1)"
      if "\<not> occurs (js ''Rated'') t1"
      by (rule info_with_duration(3)[OF m that])
  qed
  show ?thesis
    using a b info_fixture_full info_fixture_trailer info_fixture_documentary
      info_fixture_label info_fixture_marked
    by blast
qed

theorem parseMovie_info_tokens_witness:
  "parseMovie_info [js ''2 hr 1 min'' @ [8206], js ''Rated R'' @ [160], js ''Drama/Crime''] =
     Inr (Some (js ''2 hr 1 min''), Some (js ''R''), GenreList [js ''Drama'', js ''Crime'']) \<and>
   parseMovie_info [js ''Op'' @ [233] @ js ''ra '', js ''Rated R''] =
     Inr (None, None, GenreText (js ''Opra'')) \<and>
   parseMovie_info [js ''95 min'', js ''imdb'', js ''Comedy''] =
     Inr (Some (js ''95 min''), None, GenreFalse)"
proof -
  have d: "duration (js ''2 hr 1 min'' @ [8206])"
    by (simp add: ref_eval js_def)
  have r: "starts_with (js ''Rated '') (js ''Rated R'' @ [160])"
    by (simp add: str_eval)
  have n: "\<not> duration (js ''Op'' @ [233] @ js ''ra '')"
    by (simp add: ref_eval js_def)
  have d2: "duration (js ''95 min'')"
    by (simp add: ref_eval js_def)
  have nr: "\<not> occurs (js ''Rated'') (js ''imdb'')"
    by (simp add: ref_eval js_def)
  have 1: "parseMovie_info [js ''2 hr 1 min'' @ [8206], js ''Rated R'' @ [160], js ''Drama/Crime''] =
     Inr (Some (ascii_only (trimmed (js ''2 hr 1 min'' @ [8206]))),
          Some (ascii_only (trimmed (drop (length (js ''Rated '')) (js ''Rated R'' @ [160])))),
          candidate_genre (js ''Drama/Crime''))"
    using parseMovie_info_tokens[where ?t0.0 = "js ''2 hr 1 min'' @ [8206]"
        and rest = "[js ''Drama/Crime'']" and ?t1.0 = "js ''Rated R'' @ [160]"] d r
    by simp
  have 2: "parseMovie_info [js ''Op'' @ [233] @ js ''ra '', js ''Rated R''] =
     Inr (None, None, GenreText (ascii_only (trimmed (js ''Op'' @ [233] @ js ''ra ''))))"
    using parseMovie_info_tokens[where ?t0.0 = "js ''Op'' @ [233] @ js ''ra ''"
        and rest = "[js ''Rated R'']"] n
    by simp
  have 3: "parseMovie_info [js ''95 min'', js ''imdb'', js ''Comedy''] =
     Inr (Some (ascii_only (trimmed (js ''95 min''))), None, candidate_genre (js ''imdb''))"
    using parseMovie_info_tokens[where ?t0.0 = "js ''95 min''" and rest = "[js ''Comedy'']"
        and ?t1.0 = "js ''imdb''"] d2 nr
    by simp
  show ?thesis
    unfolding 1 2 3 by (simp add: ref_eval split_def js_def starts_with_def)
qed

subsection \<open>The genre of a movie record\<close>

lemmas lib_eval = serve_def url_parse_def qs_parse_def query_arg_def plain_url_query_def
  plain_qs_lookup_def cloaked_q_def parseImdb_def parseTrailer_def

lemmas movie_eval = parseMovie_twice_def parseMovie_def movieId_of_def movie_info_def
  movie_details_def info_text_def synopsis_text_def remove_last_child_def truthy_def
  blank_movie_elem_def blank_page_def no_times_def

lemma split_from_nonempty: "split_from sep piece s \<noteq> []"
  by (induction sep piece s rule: split_from.induct) auto

lemma split_nonempty: "sep \<noteq> [] \<Longrightarrow> split sep s \<noteq> []"
  by (simp add: split_def split_from_nonempty)

text \<open>What lines 354 to 389 make of a token list, field by field.\<close>

lemma parseMovie_info_fields:
  assumes "parseMovie_info info = Inr (runtime, rating, g)"
  shows "(runtime = None) = (\<not> duration (info ! 0))"
    and "runtime = None \<Longrightarrow>
           rating = None \<and> g = GenreText (ascii_only (trimmed (info ! 0)))"
    and "runtime \<noteq> None \<Longrightarrow>
           g = (case genre_token info of None \<Rightarrow> GenreFalse | Some t \<Rightarrow> candidate_genre t)"
proof -
  have all: "(runtime = None) = (\<not> duration (info ! 0)) \<and>
     (runtime = None \<longrightarrow> rating = None \<and> g = GenreText (ascii_only (trimmed (info ! 0)))) \<and>
     (runtime \<noteq> None \<longrightarrow>
        g = (case genre_token info of None \<Rightarrow> GenreFalse | Some t \<Rightarrow> candidate_genre t))"
  proof (cases info)
    case Nil
    then show ?thesis using assms by (simp add: parseMovie_info_def nth_opt_def)
  next
    case (Cons t0 rest)
    show ?thesis
    proof (cases "duration t0")
      case False
      then show ?thesis using assms Cons info_no_duration[OF False, of rest] by auto
    next
      case True
      show ?thesis
      proof (cases rest)
        case Nil
        then show ?thesis
          using assms \<open>info = t0 # rest\<close> True info_with_duration(1)[OF True] by auto
      next
        case (Cons t1 rest')
        show ?thesis
        proof (cases "occurs (js ''Rated'') t1")
          case False
          then show ?thesis
            using assms \<open>info = t0 # rest\<close> Cons True
              info_with_duration(3)[OF True False, of rest']
            by auto
        next
          case rated: True
          then show ?thesis
            using assms \<open>info = t0 # rest\<close> Cons True
              info_with_duration(2)[OF True rated, of rest']
            by (cases rest') auto
        qed
      qed
    qed
  qed
  show "(runtime = None) = (\<not> duration (info ! 0))" using all by blast
  show "runtime = None \<Longrightarrow>
          rating = None \<and> g = GenreText (ascii_only (trimmed (info ! 0)))"
    using all by blast
  show "runtime \<noteq> None \<Longrightarrow>
          g = (case genre_token info of None \<Rightarrow> GenreFalse | Some t \<Rightarrow> candidate_genre t)"
    using all by blast
qed

text \<open>The three fields of a record are what these lines make of the fragment's tokens.\<close>

lemma parseMovie_fields:
  assumes "parseMovie E pg movie alternate movieId = Inr (movie', Some r)"
  shows "parseMovie_info (info_tokens movie alternate) =
           Inr (m_runtime r, m_rating r, m_genre r)"
  using assms
  by (auto simp: parseMovie_def movie_info_def info_tokens_def info_string_def Let_def
           split: if_splits sum.splits prod.splits option.splits)

lemma parseMovie_documentary:
  "parseMovie (serve blank_page) blank_page documentary False JUndefined =
     Inr (documentary,
          Some \<lparr> m_id = JStr (js ''abc''), m_name = js ''Samsara'', m_runtime = None,
                 m_rating = None, m_genre = GenreText (js ''Documentary''),
                 m_imdb = JFalse, m_trailer = JFalse, m_showtimes = Some [[]],
                 m_showtime_tickets = None, m_details = None \<rparr>)"
  by (simp add: parseMovie_def movieId_of_def movie_info_def documentary_def blank_movie_def
        blank_page_def no_times_def parseShowtimes_def reverse_pass_def getTime_def
        lib_eval info_eval str_eval Let_def)

lemma parseMovie_dubbed:
  "\<exists>r. parseMovie (serve blank_page) blank_page dubbed False JUndefined = Inr (dubbed, Some r)"
  by (simp add: parseMovie_def movieId_of_def movie_info_def dubbed_def blank_movie_def
        blank_page_def no_times_def parseShowtimes_def reverse_pass_def getTime_def
        lib_eval info_eval str_eval Let_def)

lemma parseMovie_one_break:
  "parseMovie (serve blank_page) blank_page one_break True (JStr (js ''abc'')) =
     Inr (one_break\<lparr>
            mv_last_info :=
              Some [IText (js ''1hr 48min - Rated PG - Animation''), IText (js '' - ''),
                    IText (js ''Director: Don Hall - Cast: Ryan Potter, Scott Adsit'')],
            mv_synopsis_second := [SText (js ''They save the city.'')] \<rparr>,
          Some \<lparr> m_id = JStr (js ''abc''), m_name = js ''Big Hero 6'',
                 m_runtime = Some (js ''1hr 48min''), m_rating = Some (js ''PG''),
                 m_genre = GenreList [js ''Animation''],
                 m_imdb = JFalse, m_trailer = JFalse, m_showtimes = Some [],
                 m_showtime_tickets = None,
                 m_details =
                   Some (Some (js ''Don Hall''),
                         Some [js ''Ryan Potter'', js ''Scott Adsit''],
                         js ''A boy and his robot. They save the city.'') \<rparr>)"
  by (simp add: one_break_def movie_eval lib_eval info_eval str_eval Let_def)

text \<open>
  C6, as the claim states it, fails. The movie "Samsara" with the info string
  "Documentary" has no runtime, and its genre is the string "Documentary": neither the
  absent sentinel nor a list. And the pieces of a list are not trimmed: the info string
  "1 hr 45 min - Action / Adventure" gives the pieces "Action " and " Adventure".
\<close>

theorem parseMovie_genre_counterexample:
  "parseMovie (serve blank_page) blank_page documentary False JUndefined =
     Inr (documentary,
          Some \<lparr> m_id = JStr (js ''abc''), m_name = js ''Samsara'', m_runtime = None,
                 m_rating = None, m_genre = GenreText (js ''Documentary''),
                 m_imdb = JFalse, m_trailer = JFalse, m_showtimes = Some [[]],
                 m_showtime_tickets = None, m_details = None \<rparr>) \<and>
   parseMovie_info (split (js '' - '') (js ''1 hr 45 min - Action / Adventure'')) =
     Inr (Some (js ''1 hr 45 min''), None, GenreList [js ''Action '', js '' Adventure'']) \<and>
   trim (js ''Action '') \<noteq> js ''Action ''"
proof (intro conjI)
  show "parseMovie (serve blank_page) blank_page documentary False JUndefined =
     Inr (documentary,
          Some \<lparr> m_id = JStr (js ''abc''), m_name = js ''Samsara'', m_runtime = None,
                 m_rating = None, m_genre = GenreText (js ''Documentary''),
                 m_imdb = JFalse, m_trailer = JFalse, m_showtimes = Some [[]],
                 m_showtime_tickets = None, m_details = None \<rparr>)"
    by (rule parseMovie_documentary)
  show "parseMovie_info (split (js '' - '') (js ''1 hr 45 min - Action / Adventure'')) =
     Inr (Some (js ''1 hr 45 min''), None, GenreList [js ''Action '', js '' Adventure''])"
    by (simp add: info_eval str_eval)
  show "trim (js ''Action '') \<noteq> js ''Action ''"
    by (simp add: str_eval)
qed

text \<open>
  C6, amended. For every movie record \<^verbatim>\<open>_parseMovie\<close> returns, with the tokens of the
  fragment's info string: the record has no runtime exactly when token 0 states no
  duration. Without a runtime the record has no rating and its genre is a plain string
  (not a list): token 0, trimmed and with only its ASCII code units. With a runtime the
  genre is the absent sentinel when there is no genre token or when the genre token is
  a link label; otherwise it is a non-empty list, the pieces between "/" of the trimmed
  genre token, each piece with only its ASCII code units (the pieces themselves are not
  trimmed).
\<close>

theorem parseMovie_genre_shape:
  assumes "parseMovie E pg movie alternate movieId = Inr (movie', Some r)"
  shows "(m_runtime r = None) = (\<not> duration (info_tokens movie alternate ! 0)) \<and>
     (if m_runtime r = None then
        m_rating r = None \<and>
        m_genre r = GenreText (ascii_only (trimmed (info_tokens movie alternate ! 0)))
      else
        (case genre_token (info_tokens movie alternate) of
           None \<Rightarrow> m_genre r = GenreFalse
         | Some t \<Rightarrow>
             if link_label t then m_genre r = GenreFalse
             else m_genre r = GenreList (map ascii_only (split (js ''/'') (trimmed t))) \<and>
                  map ascii_only (split (js ''/'') (trimmed t)) \<noteq> []))"
proof -
  note f = parseMovie_info_fields[OF parseMovie_fields[OF assms]]
  have ne: "map ascii_only (split (js ''/'') u) \<noteq> []" for u
    using split_nonempty[of "js ''/''" u] by (simp add: js_def)
  show ?thesis
  proof (cases "m_runtime r = None")
    case True
    then show ?thesis using f(1) f(2) by simp
  next
    case False
    then show ?thesis using f(1) f(3) ne
      by (simp add: candidate_genre_def split: option.splits)
  qed
qed

theorem parseMovie_genre_shape_witness:
  "(\<exists>m r. parseMovie (serve blank_page) blank_page one_break True (JStr (js ''abc'')) =
            Inr (m, Some r) \<and>
          m_runtime r \<noteq> None \<and> m_genre r = GenreList [js ''Animation'']) \<and>
   (\<exists>m r. parseMovie (serve blank_page) blank_page documentary False JUndefined =
            Inr (m, Some r) \<and>
          m_runtime r = None \<and> m_rating r = None \<and>
          m_genre r = GenreText (js ''Documentary'')) \<and>
   (\<exists>m r. parseMovie (serve blank_page) blank_page dubbed False JUndefined =
            Inr (m, Some r) \<and>
          m_runtime r \<noteq> None \<and> m_genre r = GenreList [js ''Comdie'', js ''Romance''])"
proof (intro conjI)
  have t: "info_tokens one_break True =
             [js ''1hr 48min'', js ''Rated PG'', js ''Animation'', js ''Director: Don Hall'',
              js ''Cast: Ryan Potter, Scott Adsit'']"
    by (simp add: info_tokens_def info_string_def one_break_def blank_movie_elem_def
          info_text_def str_eval)
  have g: "genre_token (info_tokens one_break True) = Some (js ''Animation'')"
          "duration (info_tokens one_break True ! 0)"
          "\<not> link_label (js ''Animation'')"
          "map ascii_only (split (js ''/'') (trimmed (js ''Animation''))) = [js ''Animation'']"
    unfolding t by (simp_all add: ref_eval split_def js_def starts_with_def)
  from parseMovie_one_break obtain m r where
    p: "parseMovie (serve blank_page) blank_page one_break True (JStr (js ''abc'')) =
          Inr (m, Some r)"
    by blast
  from parseMovie_genre_shape[OF p] g
  have "m_runtime r \<noteq> None \<and> m_genre r = GenreList [js ''Animation'']"
    by (auto split: if_splits)
  then show "\<exists>m r. parseMovie (serve blank_page) blank_page one_break True (JStr (js ''abc'')) =
            Inr (m, Some r) \<and>
          m_runtime r \<noteq> None \<and> m_genre r = GenreList [js ''Animation'']"
    using p by blast
next
  have t: "info_tokens documentary False = [js ''Documentary'']"
    by (simp add: info_tokens_def info_string_def documentary_def blank_movie_def str_eval)
  have g: "\<not> duration (info_tokens documentary False ! 0)"
          "ascii_only (trimmed (info_tokens documentary False ! 0)) = js ''Documentary''"
    unfolding t by (simp_all add: ref_eval js_def)
  from parseMovie_documentary obtain m r where
    p: "parseMovie (serve blank_page) blank_page documentary False JUndefined = Inr (m, Some r)"
    by blast
  from parseMovie_genre_shape[OF p] g
  have "m_runtime r = None \<and> m_rating r = None \<and> m_genre r = GenreText (js ''Documentary'')"
    by (auto split: if_splits)
  then show "\<exists>m r. parseMovie (serve blank_page) blank_page documentary False JUndefined =
            Inr (m, Some r) \<and>
          m_runtime r = None \<and> m_rating r = None \<and>
          m_genre r = GenreText (js ''Documentary'')"
    using p by blast
next
  have t: "info_tokens dubbed False =
             [8206 # js ''2hr 2min'' @ [8206], js ''Rated R'' @ [8206],
              js ''Com'' @ [233] @ js ''die/Romance'' @ [8206], js ''Trailer'', js ''IMDb'']"
    by (simp add: info_tokens_def info_string_def dubbed_def blank_movie_def str_eval)
  have g: "genre_token (info_tokens dubbed False) =
             Some (js ''Com'' @ [233] @ js ''die/Romance'' @ [8206])"
          "duration (info_tokens dubbed False ! 0)"
          "\<not> link_label (js ''Com'' @ [233] @ js ''die/Romance'' @ [8206])"
          "map ascii_only
             (split (js ''/'') (trimmed (js ''Com'' @ [233] @ js ''die/Romance'' @ [8206]))) =
             [js ''Comdie'', js ''Romance'']"
    unfolding t by (simp_all add: ref_eval split_def js_def starts_with_def)
  from parseMovie_dubbed obtain r where
    p: "parseMovie (serve blank_page) blank_page dubbed False JUndefined = Inr (dubbed, Some r)"
    by blast
  from parseMovie_genre_shape[OF p] g
  have "m_runtime r \<noteq> None \<and> m_genre r = GenreList [js ''Comdie'', js ''Romance'']"
    by (auto split: if_splits)
  then show "\<exists>m r. parseMovie (serve blank_page) blank_page dubbed False JUndefined =
            Inr (m, Some r) \<and>
          m_runtime r \<noteq> None \<and> m_genre r = GenreList [js ''Comdie'', js ''Romance'']"
    using p by blast
qed

subsection \<open>\<^verbatim>\<open>_parseMovie\<close> twice\<close>












subsection \<open>The id of a theater\<close>

lemmas theater_eval = parseTheater_def theaterId_of_def blank_theater_def no_times_def
  blank_page_def nth_opt_def

lemmas op_eval = Showtimes_def request_def request_options_of_def decode_response_def
  match_title_def match_day_def getTheaters_handler_def getMovies_handler_def
  getTheater_def getMovie_def

lemma theaterId_unsupplied: "theaterId_of E pg theater alternate JUndefined = Inr JFalse"
  by (simp add: theaterId_of_def url_parse_def qs_parse_def Let_def split: option.splits)

text \<open>
  C4. The code does not do what the claim says. \<^verbatim>\<open>_parseTheater\<close> passes the object
  \<^verbatim>\<open>url.parse\<close> returns to \<^verbatim>\<open>qs.parse\<close>, which answers a non-string with the empty
  object: the id of a theater that is not passed is \<^verbatim>\<open>false\<close> for every fragment and
  page. The theater "Rialto", whose link is "/movies?near=x&tid=ABC123", gets the id
  \<^verbatim>\<open>false\<close>; what \<^verbatim>\<open>_parseMovie\<close> does for \<^verbatim>\<open>mid\<close> (parsing the link's \<^verbatim>\<open>query\<close>) gives
  "ABC123" on the same link.
\<close>

theorem theaterId_never_resolved:
  "theaterId_of E pg theater alternate JUndefined = Inr JFalse \<and>
   parseTheater (serve blank_page) blank_page rialto JUndefined =
     Inr \<lparr> t_id = JFalse, t_name = js ''Rialto'', t_address = js ''1 Main St'',
           t_phoneNumber = js ''(555) 123-4567'', t_movies = [] \<rparr> \<and>
   qs_parse (serve blank_page)
     (query_arg (Url (js ''/movies?near=x&tid=ABC123'')
                     (url_query_of (serve blank_page) (js ''/movies?near=x&tid=ABC123''))))
     (js ''tid'') = JStr (js ''ABC123'')"
proof (intro conjI)
  show "theaterId_of E pg theater alternate JUndefined = Inr JFalse"
    by (simp add: theaterId_of_def url_parse_def qs_parse_def Let_def split: option.splits)
  show "parseTheater (serve blank_page) blank_page rialto JUndefined =
     Inr \<lparr> t_id = JFalse, t_name = js ''Rialto'', t_address = js ''1 Main St'',
           t_phoneNumber = js ''(555) 123-4567'', t_movies = [] \<rparr>"
    by (simp add: rialto_def theater_eval lib_eval str_eval Let_def)
  show "qs_parse (serve blank_page)
     (query_arg (Url (js ''/movies?near=x&tid=ABC123'')
                     (url_query_of (serve blank_page) (js ''/movies?near=x&tid=ABC123''))))
     (js ''tid'') = JStr (js ''ABC123'')"
    by (simp add: lib_eval str_eval Let_def)
qed

subsection \<open>Fragments without a name\<close>

text \<open>
  C7. The code does not do what the claim says on the path of \<^verbatim>\<open>getMovie\<close>. When the
  page's movie selection has no name, \<^verbatim>\<open>_parseMovie\<close> returns \<^verbatim>\<open>false\<close> and \<^verbatim>\<open>getMovie\<close>
  goes on to write \<^verbatim>\<open>movieData.theaters\<close>: a TypeError leaves the handler and the callback
  is never called. The loops of \<^verbatim>\<open>getMovies\<close> and of \<^verbatim>\<open>_parseTheater\<close> do skip such a
  movie, and the loop of \<^verbatim>\<open>getTheaters\<close> a theater without a name.
\<close>

theorem getMovie_nameless_throws:
  "(http E (request_options_of this (MovieParams movieId)) = Response 200 body \<and>
    mv_h2_name_text (pg_movie_all (cheerio_load E body)) = [] \<longrightarrow>
      snd (getMovie E this movieId) = Uncaught TypeError) \<and>
   (mv_h2_name_text movie = [] \<longrightarrow>
      each_movie_elem E pg (movie # rest) acc = each_movie_elem E pg rest acc) \<and>
   (mv_name_text m = [] \<longrightarrow> each_movie E pg (m # ms) = each_movie E pg ms) \<and>
   (parseTheater E pg theater JUndefined = Inr theaterData \<and> t_name theaterData = [] \<longrightarrow>
      each_theater E pg (theater # ts) found = each_theater E pg ts found)"
  by (simp add: getMovie_def request_def parseMovie_def Let_def split: sum.splits)

theorem getMovie_nameless_throws_witness:
  "snd (getMovie (serve blank_page) fresh (JStr (js ''abc''))) = Uncaught TypeError"
proof -
  have "http (serve blank_page) (request_options_of fresh (MovieParams (JStr (js ''abc'')))) =
          Response 200 (js ''x'') \<and>
        mv_h2_name_text (pg_movie_all (cheerio_load (serve blank_page) (js ''x''))) = []"
    by (simp add: serve_def blank_page_def blank_movie_elem_def)
  then show ?thesis
    using getMovie_nameless_throws[of "serve blank_page" fresh "JStr (js ''abc'')" "js ''x''"]
    by blast
qed

subsection \<open>The Turkish encoding\<close>

text \<open>
  C9. The code does not do what the claim says in \<^verbatim>\<open>getTheater\<close> and \<^verbatim>\<open>getMovie\<close>: they
  load the body as it is. With the language "tr" and a body whose bytes are "Y\<^verbatim>\<open>\xFD\<close>ld\<^verbatim>\<open>\xFD\<close>z",
  \<^verbatim>\<open>getTheaters\<close> delivers the name with U+0131 (305) for the byte FD, while
  \<^verbatim>\<open>getTheater\<close> and \<^verbatim>\<open>getMovie\<close> deliver it with U+00FD (253).
\<close>

theorem getTheater_loads_undecoded:
  "snd (getTheater (echo [89, 253, 108, 100, 253, 122]) turkish (JStr (js ''T1''))) =
     Callback [ArgNull,
       ArgResult \<lparr> r_location = js ''Springfield'', r_date = js ''Today'',
         r_data = TheaterData
           \<lparr> t_id = JStr (js ''T1''), t_name = [89, 253, 108, 100, 253, 122],
             t_address = [], t_phoneNumber = [], t_movies = [] \<rparr> \<rparr>] \<and>
   snd (getMovie (echo [89, 253, 108, 100, 253, 122]) turkish (JStr (js ''M1''))) =
     Callback [ArgNull,
       ArgResult \<lparr> r_location = js ''Springfield'', r_date = js ''Today'',
         r_data = MovieData
           \<lparr> e_movie =
               \<lparr> m_id = JStr (js ''M1''), m_name = [89, 253, 108, 100, 253, 122],
                 m_runtime = None, m_rating = None, m_genre = GenreText [],
                 m_imdb = JFalse, m_trailer = JFalse, m_showtimes = None,
                 m_showtime_tickets = None, m_details = Some (None, None, []) \<rparr>,
             e_theaters = [], e_more_theaters = False \<rparr> \<rparr>] \<and>
   map_option (\<lambda>r. snd (snd r))
     (getTheaters (echo [89, 253, 108, 100, 253, 122]) turkish None None []) =
     Some (Callback [ArgNull,
       ArgResult \<lparr> r_location = js ''Springfield'', r_date = js ''Today'',
         r_data = TheatersData
           [\<lparr> t_id = JFalse, t_name = [89, 305, 108, 100, 305, 122],
              t_address = [], t_phoneNumber = [], t_movies = [] \<rparr>] \<rparr>])"
proof (intro conjI)
  show "snd (getTheater (echo [89, 253, 108, 100, 253, 122]) turkish (JStr (js ''T1''))) =
     Callback [ArgNull,
       ArgResult \<lparr> r_location = js ''Springfield'', r_date = js ''Today'',
         r_data = TheaterData
           \<lparr> t_id = JStr (js ''T1''), t_name = [89, 253, 108, 100, 253, 122],
             t_address = [], t_phoneNumber = [], t_movies = [] \<rparr> \<rparr>]"
    by (simp add: echo_def echo_page_def turkish_def op_eval theater_eval lib_eval str_eval
          Let_def)
  show "snd (getMovie (echo [89, 253, 108, 100, 253, 122]) turkish (JStr (js ''M1''))) =
     Callback [ArgNull,
       ArgResult \<lparr> r_location = js ''Springfield'', r_date = js ''Today'',
         r_data = MovieData
           \<lparr> e_movie =
               \<lparr> m_id = JStr (js ''M1''), m_name = [89, 253, 108, 100, 253, 122],
                 m_runtime = None, m_rating = None, m_genre = GenreText [],
                 m_imdb = JFalse, m_trailer = JFalse, m_showtimes = None,
                 m_showtime_tickets = None, m_details = Some (None, None, []) \<rparr>,
             e_theaters = [], e_more_theaters = False \<rparr> \<rparr>]"
    by (simp add: echo_def echo_page_def turkish_def op_eval movie_eval lib_eval info_eval
          str_eval Let_def)
  show "map_option (\<lambda>r. snd (snd r))
     (getTheaters (echo [89, 253, 108, 100, 253, 122]) turkish None None []) =
     Some (Callback [ArgNull,
       ArgResult \<lparr> r_location = js ''Springfield'', r_date = js ''Today'',
         r_data = TheatersData
           [\<lparr> t_id = JFalse, t_name = [89, 305, 108, 100, 305, 122],
              t_address = [], t_phoneNumber = [], t_movies = [] \<rparr>] \<rparr>])"
    by (simp add: getTheaters.simps echo_def echo_page_def turkish_def op_eval theater_eval
          lib_eval str_eval Let_def iconv_decode_latin5_def latin5_def)
qed

subsection \<open>State left on the instance\<close>

text \<open>
  C10. The code does not do what the claim says. \<^verbatim>\<open>_request\<close> computes the offset from
  \<^verbatim>\<open>this.page\<close>, which \<^verbatim>\<open>getTheaters\<close> and \<^verbatim>\<open>getMovies\<close> set and leave behind and which
  \<^verbatim>\<open>getTheater\<close> and \<^verbatim>\<open>getMovie\<close> do not reset. On a new instance \<^verbatim>\<open>getTheater\<close> asks with
  the offset NaN and delivers "Rialto"; after a \<^verbatim>\<open>getTheaters\<close> over two pages, which
  leaves the page number 2, the same call asks with the offset 10 and delivers "Odeon".
\<close>

theorem getTheater_offset_leaks:
  "rq_start (fst (getTheater E this theaterId)) =
     (case page this of None \<Rightarrow> None | Some p \<Rightarrow> Some ((p - 1) * 10)) \<and>
   rq_start (fst (getMovie E this movieId)) =
     (case page this of None \<Rightarrow> None | Some p \<Rightarrow> Some ((p - 1) * 10)) \<and>
   map_option (\<lambda>r. (page (fst r), map rq_start (fst (snd r))))
     (getTheaters two_pages fresh None None []) = Some (Some 2, [Some 0, Some 10]) \<and>
   (case getTheaters two_pages fresh None None [] of
      None \<Rightarrow> None
    | Some (api', sent, out) \<Rightarrow>
        Some (rq_start (fst (getTheater two_pages api' (JStr (js ''T1'')))),
              snd (getTheater two_pages api' (JStr (js ''T1''))))) =
     Some (Some 10,
           Callback [ArgNull,
             ArgResult \<lparr> r_location = js ''Springfield'', r_date = js ''Today'',
               r_data = TheaterData
                 \<lparr> t_id = JStr (js ''T1''), t_name = js ''Odeon'',
                   t_address = js ''2 High St'', t_phoneNumber = [], t_movies = [] \<rparr> \<rparr>]) \<and>
   (rq_start (fst (getTheater two_pages fresh (JStr (js ''T1'')))),
    snd (getTheater two_pages fresh (JStr (js ''T1'')))) =
     (None,
      Callback [ArgNull,
        ArgResult \<lparr> r_location = js ''Springfield'', r_date = js ''Today'',
          r_data = TheaterData
            \<lparr> t_id = JStr (js ''T1''), t_name = js ''Rialto'',
              t_address = js ''1 Main St'', t_phoneNumber = js ''(555) 123-4567'',
              t_movies = [] \<rparr> \<rparr>])"
proof (intro conjI)
  show "rq_start (fst (getTheater E this theaterId)) =
     (case page this of None \<Rightarrow> None | Some p \<Rightarrow> Some ((p - 1) * 10))"
    by (simp add: getTheater_def request_options_of_def)
  show "rq_start (fst (getMovie E this movieId)) =
     (case page this of None \<Rightarrow> None | Some p \<Rightarrow> Some ((p - 1) * 10))"
    by (simp add: getMovie_def request_options_of_def)
  show "map_option (\<lambda>r. (page (fst r), map rq_start (fst (snd r))))
     (getTheaters two_pages fresh None None []) = Some (Some 2, [Some 0, Some 10])"
    by (simp add: getTheaters.simps two_pages_def page_one_def page_two_def rialto_def
          odeon_def fresh_def op_eval theater_eval lib_eval str_eval Let_def)
  show "(case getTheaters two_pages fresh None None [] of
      None \<Rightarrow> None
    | Some (api', sent, out) \<Rightarrow>
        Some (rq_start (fst (getTheater two_pages api' (JStr (js ''T1'')))),
              snd (getTheater two_pages api' (JStr (js ''T1''))))) =
     Some (Some 10,
           Callback [ArgNull,
             ArgResult \<lparr> r_location = js ''Springfield'', r_date = js ''Today'',
               r_data = TheaterData
                 \<lparr> t_id = JStr (js ''T1''), t_name = js ''Odeon'',
                   t_address = js ''2 High St'', t_phoneNumber = [], t_movies = [] \<rparr> \<rparr>])"
    by (simp add: getTheaters.simps two_pages_def page_one_def page_two_def rialto_def
          odeon_def fresh_def op_eval theater_eval lib_eval str_eval Let_def)
  show "(rq_start (fst (getTheater two_pages fresh (JStr (js ''T1'')))),
    snd (getTheater two_pages fresh (JStr (js ''T1'')))) =
     (None,
      Callback [ArgNull,
        ArgResult \<lparr> r_location = js ''Springfield'', r_date = js ''Today'',
          r_data = TheaterData
            \<lparr> t_id = JStr (js ''T1''), t_name = js ''Rialto'',
              t_address = js ''1 Main St'', t_phoneNumber = js ''(555) 123-4567'',
              t_movies = [] \<rparr> \<rparr>])"
    by (simp add: two_pages_def page_one_def page_two_def rialto_def
          odeon_def fresh_def op_eval theater_eval lib_eval str_eval Let_def)
qed

subsection \<open>Pagination\<close>

lemma each_theater_acc:
  "each_theater E pg ts acc =
     (acc @ fst (each_theater E pg ts []), snd (each_theater E pg ts []))"
proof (induction ts arbitrary: acc)
  case Nil
  then show ?case by simp
next
  case (Cons t ts)
  show ?case
  proof (cases "parseTheater E pg t JUndefined")
    case (Inl e)
    then show ?thesis by simp
  next
    case (Inr d)
    show ?thesis
    proof (cases "length (t_name d) = 0")
      case True
      then show ?thesis using Inr Cons.IH[of acc] by simp
    next
      case False
      then show ?thesis using Inr Cons.IH[of "acc @ [d]"] Cons.IH[of "[d]"] by simp
    qed
  qed
qed

lemma parseTheater_name:
  "parseTheater E pg t i = Inr d \<Longrightarrow> t_name d = th_desc_name_text t"
  by (auto simp: parseTheater_def Let_def split: sum.splits)

lemma each_theater_length:
  "snd (each_theater E pg ts []) = None \<Longrightarrow>
   length (fst (each_theater E pg ts [])) =
     length (filter (\<lambda>t. th_desc_name_text t \<noteq> []) ts)"
proof (induction ts)
  case Nil
  then show ?case by simp
next
  case (Cons t ts)
  show ?case
  proof (cases "parseTheater E pg t JUndefined")
    case (Inl e)
    then show ?thesis using Cons.prems by simp
  next
    case (Inr d)
    note n = parseTheater_name[OF Inr]
    show ?thesis
    proof (cases "th_desc_name_text t = []")
      case True
      then show ?thesis using Inr n Cons by simp
    next
      case False
      have "each_theater E pg (t # ts) [] = each_theater E pg ts [d]"
        using False Inr n by simp
      also have "\<dots> = ([d] @ fst (each_theater E pg ts []), snd (each_theater E pg ts []))"
        by (rule each_theater_acc)
      finally have e: "each_theater E pg (t # ts) [] =
          (d # fst (each_theater E pg ts []), snd (each_theater E pg ts []))" by simp
      then show ?thesis using False Cons by simp
    qed
  qed
qed

lemma request_page_only:
  "request E (this\<lparr> page := x, theaters := y \<rparr>) ps = request E (this\<lparr> page := x \<rparr>) ps"
  "request E (this\<lparr> page := x, movies := z \<rparr>) ps = request E (this\<lparr> page := x \<rparr>) ps"
  by (simp_all add: request_def request_options_of_def)

lemma options_page_only:
  "request_options_of (this\<lparr> page := x, theaters := y \<rparr>) ps = request_options_of (this\<lparr> page := x \<rparr>) ps"
  "request_options_of (this\<lparr> page := x, movies := z \<rparr>) ps = request_options_of (this\<lparr> page := x \<rparr>) ps"
  by (simp_all add: request_options_of_def)

text \<open>One round of \<^verbatim>\<open>getTheaters\<close> on a result page.\<close>

lemma getTheaters_step:
  assumes f: "fetched_page E this (TheatersParams q) i = Some pg"
    and ok: "pg_theater pg \<noteq> []" "match_title (pg_title_bar_text pg) = Some loc"
      "match_day (pg_left_nav_b_text pg) = Some day"
      "snd (each_theater E pg (pg_theater pg) []) = None"
  shows "getTheaters E (this\<lparr> page := x, theaters := y \<rparr>) q (Some (int i + 1, acc)) sent =
     (let acc' = acc @ fst (each_theater E pg (pg_theater pg) []);
          sent' = sent @ [request_options_of (this\<lparr> page := Some (int i + 1) \<rparr>) (TheatersParams q)]
      in if pg_navbar_next pg = 0 \<or> int i + 1 = pageLimit this then
           Some (this\<lparr> page := Some (int i + 1), theaters := Some acc' \<rparr>, sent',
                 Callback [ArgNull, ArgResult \<lparr> r_location = loc, r_date = day,
                                               r_data = TheatersData acc' \<rparr>])
         else getTheaters E (this\<lparr> page := Some (int i + 2), theaters := Some acc' \<rparr>) q
                (Some (int i + 2, acc')) sent')"
proof -
  from f obtain body where
    b: "request E (this\<lparr> page := Some (int i + 1) \<rparr>) (TheatersParams q) = Inr body"
       "pg = cheerio_load E (decode_response this body)"
    by (auto simp: fetched_page_def split: sum.splits)
  have e: "each_theater E pg (pg_theater pg) acc =
             (acc @ fst (each_theater E pg (pg_theater pg) []), None)"
    using each_theater_acc[of E pg "pg_theater pg" acc] ok(4) by simp
  have d: "decode_response (this\<lparr> page := Some (int i + 1), theaters := Some acc \<rparr>) body =
           decode_response this body"
    by (simp add: decode_response_def)
  have h: "getTheaters_handler E (this\<lparr> page := Some (int i + 1), theaters := Some acc \<rparr>)
             (int i + 1) acc body =
           (let acc' = acc @ fst (each_theater E pg (pg_theater pg) [])
            in if pg_navbar_next pg = 0 \<or> int i + 1 = pageLimit this then
                 Finished (this\<lparr> page := Some (int i + 1), theaters := Some acc' \<rparr>)
                   (Callback [ArgNull, ArgResult \<lparr> r_location = loc, r_date = day,
                                                 r_data = TheatersData acc' \<rparr>])
               else NextPage (this\<lparr> page := Some (int i + 2), theaters := Some acc' \<rparr>)
                      (int i + 2) acc')"
    using ok(1,2,3) e b(2) by (simp add: getTheaters_handler_def d Let_def)
  show ?thesis
    apply (subst getTheaters.simps)
    apply (simp add: Let_def request_page_only options_page_only b(1) h)
    done
qed

lemma theater_pages_at:
  assumes "theater_pages E this q N" and "i < N"
  shows "\<exists>pg loc day. fetched_page E this (TheatersParams q) i = Some pg \<and>
           pg_theater pg \<noteq> [] \<and> match_title (pg_title_bar_text pg) = Some loc \<and>
           match_day (pg_left_nav_b_text pg) = Some day \<and>
           snd (each_theater E pg (pg_theater pg) []) = None \<and>
           (0 < pg_navbar_next pg) = (Suc i < N)"
proof -
  have "i \<in> set [0..<N]" using assms(2) by simp
  then have "case fetched_page E this (TheatersParams q) i of
               None \<Rightarrow> False
             | Some pg \<Rightarrow>
                 pg_theater pg \<noteq> [] \<and>
                 match_title (pg_title_bar_text pg) \<noteq> None \<and>
                 match_day (pg_left_nav_b_text pg) \<noteq> None \<and>
                 snd (each_theater E pg (pg_theater pg) []) = None \<and>
                 (0 < pg_navbar_next pg) = (Suc i < N)"
    using assms(1) unfolding theater_pages_def list_all_iff by blast
  then show ?thesis
    by (cases "fetched_page E this (TheatersParams q) i") auto
qed

lemma stop_iff:
  assumes "M = fetches L N" and "i < M" and "(0 < (nx::nat)) = (Suc i < N)"
  shows "(nx = 0 \<or> int i + 1 = L) = (Suc i = M)"
proof -
  have nx: "(nx = 0) = (N \<le> Suc i)" using assms(3) by auto
  show ?thesis
  proof (cases "1 \<le> L \<and> L < int N")
    case True
    then have "M = nat L" using assms(1) by (simp add: fetches_def)
    then show ?thesis using True assms(2) nx by auto
  next
    case False
    then have "M = N" using assms(1) by (auto simp: fetches_def)
    then show ?thesis using False assms(2) nx by auto
  qed
qed

lemma fetches_le: "fetches L N \<le> N"
  by (auto simp: fetches_def)

lemma getTheaters_loop:
  assumes P: "theater_pages E this q N" and M: "M = fetches (pageLimit this) N"
    and i: "i < M"
  shows "\<exists>api' sent' r acc'.
           getTheaters E (this\<lparr> page := x, theaters := y \<rparr>) q (Some (int i + 1, acc)) sent =
             Some (api', sent', Callback [ArgNull, ArgResult r]) \<and>
           page api' = Some (int M) \<and>
           length sent' = length sent + (M - i) \<and>
           r_data r = TheatersData acc' \<and>
           length acc' = length acc +
             sum_list (map (\<lambda>j. case fetched_page E this (TheatersParams q) j of
                                   None \<Rightarrow> 0 | Some pg \<Rightarrow> named_theaters pg) [i..<M])"
  using i
proof (induction "M - i" arbitrary: i acc sent x y)
  case 0
  then show ?case by simp
next
  case (Suc k)
  have iN: "i < N" using Suc.prems M fetches_le[of "pageLimit this" N] by simp
  from theater_pages_at[OF P iN] obtain pg loc day where
    pg: "fetched_page E this (TheatersParams q) i = Some pg"
        "pg_theater pg \<noteq> []" "match_title (pg_title_bar_text pg) = Some loc"
        "match_day (pg_left_nav_b_text pg) = Some day"
        "snd (each_theater E pg (pg_theater pg) []) = None"
        "(0 < pg_navbar_next pg) = (Suc i < N)"
    by auto
  note step = getTheaters_step[OF pg(1,2,3,4,5), where x = x and y = y and acc = acc and sent = sent]
  note stop = stop_iff[OF M Suc.prems pg(6)]
  have len: "length (fst (each_theater E pg (pg_theater pg) [])) = named_theaters pg"
    using each_theater_length[OF pg(5)] by (simp add: named_theaters_def)
  have upt: "[i..<M] = i # [Suc i..<M]" using Suc.prems by (simp add: upt_conv_Cons)
  show ?case
  proof (cases "Suc i = M")
    case True
    then have "[Suc i..<M] = []" by simp
    then show ?thesis
      using step stop True len upt pg(1) by (simp add: Let_def)
  next
    case False
    then have lt: "Suc i < M" using Suc.prems by simp
    have k: "k = M - Suc i" using Suc.hyps(2) by simp
    have two: "int i + 2 = int (Suc i) + 1" by simp
    from Suc.hyps(1)[OF k lt, where x = "Some (int i + 2)"
        and y = "Some (acc @ fst (each_theater E pg (pg_theater pg) []))"
        and acc = "acc @ fst (each_theater E pg (pg_theater pg) [])"
        and sent = "sent @ [request_options_of (this\<lparr> page := Some (int i + 1) \<rparr>)
                             (TheatersParams q)]"]
    obtain api' sent' r acc' where
      r: "getTheaters E
            (this\<lparr> page := Some (int i + 2),
                   theaters := Some (acc @ fst (each_theater E pg (pg_theater pg) [])) \<rparr>) q
            (Some (int (Suc i) + 1, acc @ fst (each_theater E pg (pg_theater pg) [])))
            (sent @ [request_options_of (this\<lparr> page := Some (int i + 1) \<rparr>) (TheatersParams q)]) =
          Some (api', sent', Callback [ArgNull, ArgResult r])"
         "page api' = Some (int M)"
         "length sent' =
            length (sent @ [request_options_of (this\<lparr> page := Some (int i + 1) \<rparr>)
                              (TheatersParams q)]) + (M - Suc i)"
         "r_data r = TheatersData acc'"
         "length acc' = length (acc @ fst (each_theater E pg (pg_theater pg) [])) +
             sum_list (map (\<lambda>j. case fetched_page E this (TheatersParams q) j of
                                   None \<Rightarrow> 0 | Some pg \<Rightarrow> named_theaters pg) [Suc i..<M])"
      by blast
    have "getTheaters E (this\<lparr> page := x, theaters := y \<rparr>) q (Some (int i + 1, acc)) sent =
            Some (api', sent', Callback [ArgNull, ArgResult r])"
      using step stop False r(1) by (simp add: Let_def two)
    moreover have "length sent' = length sent + (M - i)" using r(3) lt by simp
    moreover have "length acc' = length acc +
             sum_list (map (\<lambda>j. case fetched_page E this (TheatersParams q) j of
                                   None \<Rightarrow> 0 | Some pg \<Rightarrow> named_theaters pg) [i..<M])"
      using r(5) len pg(1) by (simp add: upt)
    ultimately show ?thesis using r(2,4) by blast
  qed
qed

lemma getTheaters_first:
  "getTheaters E this q None sent = getTheaters E this q (Some (1, [])) sent"
  by (simp add: getTheaters.simps[of _ _ _ None] getTheaters.simps[of _ _ _ "Some (1, [])"])

lemma getTheaters_pages:
  assumes "0 < N" and "theater_pages E this q N"
  shows "\<exists>api' sent r acc.
           getTheaters E this q None [] = Some (api', sent, Callback [ArgNull, ArgResult r]) \<and>
           page api' = Some (int (fetches (pageLimit this) N)) \<and>
           length sent = fetches (pageLimit this) N \<and>
           r_data r = TheatersData acc \<and>
           length acc =
             named_on named_theaters E this (TheatersParams q) (fetches (pageLimit this) N)"
proof -
  have "0 < fetches (pageLimit this) N" using assms(1) by (auto simp: fetches_def)
  from getTheaters_loop[OF assms(2) refl this, where x = "page this" and y = "theaters this"
      and acc = "[]" and sent = "[]"]
  show ?thesis
    by (simp add: getTheaters_first named_on_def)
qed

text \<open>The same for \<^verbatim>\<open>getMovies\<close>.\<close>

lemma each_movie_elem_acc:
  "each_movie_elem E pg ms acc =
     (acc @ fst (each_movie_elem E pg ms []), snd (each_movie_elem E pg ms []))"
proof (induction ms arbitrary: acc)
  case Nil
  then show ?case by simp
next
  case (Cons m ms)
  show ?case
  proof (cases "parseMovie E pg m True JUndefined")
    case (Inl e)
    then show ?thesis by simp
  next
    case (Inr res)
    obtain m' r where res: "res = (m', r)" by (cases res)
    show ?thesis
    proof (cases r)
      case None
      then show ?thesis using Inr res Cons.IH[of acc] by simp
    next
      case (Some d)
      show ?thesis
      proof (cases "each_alt_theater E pg (me_theaters m')")
        case (Inl e)
        then show ?thesis using Inr res Some by simp
      next
        case (Inr ts)
        then show ?thesis
          using \<open>parseMovie E pg m True JUndefined = Inr res\<close> res Some
            Cons.IH[of "acc @ [\<lparr> e_movie = d\<lparr> m_showtimes := None \<rparr>, e_theaters = ts,
                                  e_more_theaters = (0 < me_show_more m') \<rparr>]"]
            Cons.IH[of "[\<lparr> e_movie = d\<lparr> m_showtimes := None \<rparr>, e_theaters = ts,
                                  e_more_theaters = (0 < me_show_more m') \<rparr>]"]
          by simp
      qed
    qed
  qed
qed

lemma parseMovie_named:
  "parseMovie E pg movie True i = Inr (movie', r) \<Longrightarrow> (r = None) = (mv_h2_name_text movie = [])"
  by (auto simp: parseMovie_def Let_def split: if_splits sum.splits prod.splits)

lemma each_movie_elem_length:
  "snd (each_movie_elem E pg ms []) = None \<Longrightarrow>
   length (fst (each_movie_elem E pg ms [])) =
     length (filter (\<lambda>m. mv_h2_name_text m \<noteq> []) ms)"
proof (induction ms)
  case Nil
  then show ?case by simp
next
  case (Cons m ms)
  show ?case
  proof (cases "parseMovie E pg m True JUndefined")
    case (Inl e)
    then show ?thesis using Cons.prems by simp
  next
    case (Inr res)
    obtain m' r where res: "res = (m', r)" by (cases res)
    note n = parseMovie_named[OF Inr[unfolded res]]
    show ?thesis
    proof (cases r)
      case None
      then show ?thesis using Inr res n Cons by simp
    next
      case (Some d)
      show ?thesis
      proof (cases "each_alt_theater E pg (me_theaters m')")
        case (Inl e)
        then show ?thesis using Inr res Some Cons.prems by simp
      next
        case (Inr ts)
        let ?e = "\<lparr> e_movie = d\<lparr> m_showtimes := None \<rparr>, e_theaters = ts,
                    e_more_theaters = (0 < me_show_more m') \<rparr>"
        have "each_movie_elem E pg (m # ms) [] = each_movie_elem E pg ms [?e]"
          using \<open>parseMovie E pg m True JUndefined = Inr res\<close> res Some Inr by simp
        also have "\<dots> = ([?e] @ fst (each_movie_elem E pg ms []),
                          snd (each_movie_elem E pg ms []))"
          by (rule each_movie_elem_acc)
        finally have e: "each_movie_elem E pg (m # ms) [] =
            (?e # fst (each_movie_elem E pg ms []), snd (each_movie_elem E pg ms []))"
          by simp
        then show ?thesis using n Some Cons by simp
      qed
    qed
  qed
qed

lemma getMovies_step:
  assumes f: "fetched_page E this (MoviesParams q) i = Some pg"
    and ok: "pg_movie pg \<noteq> []" "match_title (pg_title_bar_text pg) = Some loc"
      "match_day (pg_left_nav_b_text pg) = Some day"
      "snd (each_movie_elem E pg (pg_movie pg) []) = None"
  shows "getMovies E (this\<lparr> page := x, movies := y \<rparr>) q (Some (int i + 1, acc)) sent =
     (let acc' = acc @ fst (each_movie_elem E pg (pg_movie pg) []);
          sent' = sent @ [request_options_of (this\<lparr> page := Some (int i + 1) \<rparr>) (MoviesParams q)]
      in if pg_navbar_next pg = 0 \<or> int i + 1 = pageLimit this then
           Some (this\<lparr> page := Some (int i + 1), movies := Some acc' \<rparr>, sent',
                 Callback [ArgNull, ArgResult \<lparr> r_location = loc, r_date = day,
                                               r_data = MoviesData acc' \<rparr>])
         else getMovies E (this\<lparr> page := Some (int i + 2), movies := Some acc' \<rparr>) q
                (Some (int i + 2, acc')) sent')"
proof -
  from f obtain body where
    b: "request E (this\<lparr> page := Some (int i + 1) \<rparr>) (MoviesParams q) = Inr body"
       "pg = cheerio_load E (decode_response this body)"
    by (auto simp: fetched_page_def split: sum.splits)
  have e: "each_movie_elem E pg (pg_movie pg) acc =
             (acc @ fst (each_movie_elem E pg (pg_movie pg) []), None)"
    using each_movie_elem_acc[of E pg "pg_movie pg" acc] ok(4) by simp
  have d: "decode_response (this\<lparr> page := Some (int i + 1), movies := Some acc \<rparr>) body =
           decode_response this body"
    by (simp add: decode_response_def)
  have h: "getMovies_handler E (this\<lparr> page := Some (int i + 1), movies := Some acc \<rparr>)
             (int i + 1) acc body =
           (let acc' = acc @ fst (each_movie_elem E pg (pg_movie pg) [])
            in if pg_navbar_next pg = 0 \<or> int i + 1 = pageLimit this then
                 Finished (this\<lparr> page := Some (int i + 1), movies := Some acc' \<rparr>)
                   (Callback [ArgNull, ArgResult \<lparr> r_location = loc, r_date = day,
                                                 r_data = MoviesData acc' \<rparr>])
               else NextPage (this\<lparr> page := Some (int i + 2), movies := Some acc' \<rparr>)
                      (int i + 2) acc')"
    using ok(1,2,3) e b(2) by (simp add: getMovies_handler_def d Let_def)
  show ?thesis
    apply (subst getMovies.simps)
    apply (simp add: Let_def request_page_only options_page_only b(1) h)
    done
qed

lemma movie_pages_at:
  assumes "movie_pages E this q N" and "i < N"
  shows "\<exists>pg loc day. fetched_page E this (MoviesParams q) i = Some pg \<and>
           pg_movie pg \<noteq> [] \<and> match_title (pg_title_bar_text pg) = Some loc \<and>
           match_day (pg_left_nav_b_text pg) = Some day \<and>
           snd (each_movie_elem E pg (pg_movie pg) []) = None \<and>
           (0 < pg_navbar_next pg) = (Suc i < N)"
proof -
  have "i \<in> set [0..<N]" using assms(2) by simp
  then have "case fetched_page E this (MoviesParams q) i of
               None \<Rightarrow> False
             | Some pg \<Rightarrow>
                 pg_movie pg \<noteq> [] \<and>
                 match_title (pg_title_bar_text pg) \<noteq> None \<and>
                 match_day (pg_left_nav_b_text pg) \<noteq> None \<and>
                 snd (each_movie_elem E pg (pg_movie pg) []) = None \<and>
                 (0 < pg_navbar_next pg) = (Suc i < N)"
    using assms(1) unfolding movie_pages_def list_all_iff by blast
  then show ?thesis
    by (cases "fetched_page E this (MoviesParams q) i") auto
qed

lemma getMovies_loop:
  assumes P: "movie_pages E this q N" and M: "M = fetches (pageLimit this) N"
    and i: "i < M"
  shows "\<exists>api' sent' r acc'.
           getMovies E (this\<lparr> page := x, movies := y \<rparr>) q (Some (int i + 1, acc)) sent =
             Some (api', sent', Callback [ArgNull, ArgResult r]) \<and>
           page api' = Some (int M) \<and>
           length sent' = length sent + (M - i) \<and>
           r_data r = MoviesData acc' \<and>
           length acc' = length acc +
             sum_list (map (\<lambda>j. case fetched_page E this (MoviesParams q) j of
                                   None \<Rightarrow> 0 | Some pg \<Rightarrow> named_movies pg) [i..<M])"
  using i
proof (induction "M - i" arbitrary: i acc sent x y)
  case 0
  then show ?case by simp
next
  case (Suc k)
  have iN: "i < N" using Suc.prems M fetches_le[of "pageLimit this" N] by simp
  from movie_pages_at[OF P iN] obtain pg loc day where
    pg: "fetched_page E this (MoviesParams q) i = Some pg"
        "pg_movie pg \<noteq> []" "match_title (pg_title_bar_text pg) = Some loc"
        "match_day (pg_left_nav_b_text pg) = Some day"
        "snd (each_movie_elem E pg (pg_movie pg) []) = None"
        "(0 < pg_navbar_next pg) = (Suc i < N)"
    by auto
  note step = getMovies_step[OF pg(1,2,3,4,5), where x = x and y = y and acc = acc and sent = sent]
  note stop = stop_iff[OF M Suc.prems pg(6)]
  have len: "length (fst (each_movie_elem E pg (pg_movie pg) [])) = named_movies pg"
    using each_movie_elem_length[OF pg(5)] by (simp add: named_movies_def)
  have upt: "[i..<M] = i # [Suc i..<M]" using Suc.prems by (simp add: upt_conv_Cons)
  show ?case
  proof (cases "Suc i = M")
    case True
    then have "[Suc i..<M] = []" by simp
    then show ?thesis
      using step stop True len upt pg(1) by (simp add: Let_def)
  next
    case False
    then have lt: "Suc i < M" using Suc.prems by simp
    have k: "k = M - Suc i" using Suc.hyps(2) by simp
    have two: "int i + 2 = int (Suc i) + 1" by simp
    from Suc.hyps(1)[OF k lt, where x = "Some (int i + 2)"
        and y = "Some (acc @ fst (each_movie_elem E pg (pg_movie pg) []))"
        and acc = "acc @ fst (each_movie_elem E pg (pg_movie pg) [])"
        and sent = "sent @ [request_options_of (this\<lparr> page := Some (int i + 1) \<rparr>)
                             (MoviesParams q)]"]
    obtain api' sent' r acc' where
      r: "getMovies E
            (this\<lparr> page := Some (int i + 2),
                   movies := Some (acc @ fst (each_movie_elem E pg (pg_movie pg) [])) \<rparr>) q
            (Some (int (Suc i) + 1, acc @ fst (each_movie_elem E pg (pg_movie pg) [])))
            (sent @ [request_options_of (this\<lparr> page := Some (int i + 1) \<rparr>) (MoviesParams q)]) =
          Some (api', sent', Callback [ArgNull, ArgResult r])"
         "page api' = Some (int M)"
         "length sent' =
            length (sent @ [request_options_of (this\<lparr> page := Some (int i + 1) \<rparr>)
                              (MoviesParams q)]) + (M - Suc i)"
         "r_data r = MoviesData acc'"
         "length acc' = length (acc @ fst (each_movie_elem E pg (pg_movie pg) [])) +
             sum_list (map (\<lambda>j. case fetched_page E this (MoviesParams q) j of
                                   None \<Rightarrow> 0 | Some pg \<Rightarrow> named_movies pg) [Suc i..<M])"
      by blast
    have "getMovies E (this\<lparr> page := x, movies := y \<rparr>) q (Some (int i + 1, acc)) sent =
            Some (api', sent', Callback [ArgNull, ArgResult r])"
      using step stop False r(1) by (simp add: Let_def two)
    moreover have "length sent' = length sent + (M - i)" using r(3) lt by simp
    moreover have "length acc' = length acc +
             sum_list (map (\<lambda>j. case fetched_page E this (MoviesParams q) j of
                                   None \<Rightarrow> 0 | Some pg \<Rightarrow> named_movies pg) [i..<M])"
      using r(5) len pg(1) by (simp add: upt)
    ultimately show ?thesis using r(2,4) by blast
  qed
qed

lemma getMovies_first:
  "getMovies E this q None sent = getMovies E this q (Some (1, [])) sent"
  by (simp add: getMovies.simps[of _ _ _ None] getMovies.simps[of _ _ _ "Some (1, [])"])

lemma getMovies_pages:
  assumes "0 < N" and "movie_pages E this q N"
  shows "\<exists>api' sent r acc.
           getMovies E this q None [] = Some (api', sent, Callback [ArgNull, ArgResult r]) \<and>
           page api' = Some (int (fetches (pageLimit this) N)) \<and>
           length sent = fetches (pageLimit this) N \<and>
           r_data r = MoviesData acc \<and>
           length acc =
             named_on named_movies E this (MoviesParams q) (fetches (pageLimit this) N)"
proof -
  have "0 < fetches (pageLimit this) N" using assms(1) by (auto simp: fetches_def)
  from getMovies_loop[OF assms(2) refl this, where x = "page this" and y = "movies this"
      and acc = "[]" and sent = "[]"]
  show ?thesis
    by (simp add: getMovies_first named_on_def)
qed

text \<open>Runs on concrete servers.\<close>

lemma zero_limit_pages: "theater_pages (serve page_two) limit_zero None 1"
  by (simp add: theater_pages_def fetched_page_def serve_def page_two_def odeon_def limit_zero_def
       op_eval theater_eval lib_eval str_eval Let_def)

lemma zero_limit_run:
  "map_option (\<lambda>r. length (fst (snd r))) (getTheaters (serve page_two) limit_zero None None []) = Some 1"
  by (simp add: getTheaters.simps serve_def page_two_def odeon_def limit_zero_def
       op_eval theater_eval lib_eval str_eval Let_def)

lemma thousand_pages: "theater_pages thousand fresh None 1000"
  unfolding theater_pages_def list_all_iff
proof
  fix i assume "i \<in> set [0..<1000]"
  then have i: "i < 1000" by simp
  have a: "((int i + 1 - 1) * 10 = 9990) = (i = 999)" by presburger
  have r: "request thousand (fresh\<lparr> page := Some (int i + 1) \<rparr>) (TheatersParams None) =
             Inr (if i = 999 then js ''last'' else js ''more'')"
    using a by (simp add: thousand_def request_def request_options_of_def)
  have d: "decode_response fresh body = body" for body
    by (simp add: decode_response_def fresh_def Showtimes_def js_def)
  have l: "cheerio_load thousand (if i = 999 then js ''last'' else js ''more'') =
             page_two\<lparr> pg_navbar_next := (if i = 999 then 0 else 1) \<rparr>"
    by (simp add: thousand_def js_def)
  have f: "fetched_page thousand fresh (TheatersParams None) i =
             Some (page_two\<lparr> pg_navbar_next := (if i = 999 then 0 else 1) \<rparr>)"
    by (simp only: fetched_page_def r d l sum.case)
  have p: "parseTheater thousand pg odeon JUndefined =
             Inr \<lparr> t_id = JFalse, t_name = js ''Odeon'', t_address = js ''2 High St'',
                   t_phoneNumber = [], t_movies = [] \<rparr>" for pg
    by (simp add: parseTheater_def theaterId_unsupplied odeon_def blank_theater_def
          no_times_def nth_opt_def str_eval Let_def)
  have n: "js ''Odeon'' \<noteq> []" by (simp add: js_def)
  have e: "snd (each_theater thousand pg [odeon] []) = None" for pg
    using n by (simp add: p)
  have t: "match_title (pg_title_bar_text blank_page) \<noteq> None"
          "match_day (pg_left_nav_b_text blank_page) \<noteq> None"
    by (simp_all add: blank_page_def match_title_def match_day_def str_eval Let_def)
  show "case fetched_page thousand fresh (TheatersParams None) i of
          None \<Rightarrow> False
        | Some pg \<Rightarrow>
            pg_theater pg \<noteq> [] \<and>
            match_title (pg_title_bar_text pg) \<noteq> None \<and>
            match_day (pg_left_nav_b_text pg) \<noteq> None \<and>
            snd (each_theater thousand pg (pg_theater pg) []) = None \<and>
            (0 < pg_navbar_next pg) = (Suc i < 1000)"
    using i t n unfolding f by (simp add: page_two_def p)
qed


lemma thousand_run:
  "map_option (\<lambda>r. length (fst (snd r))) (getTheaters thousand fresh None None []) = Some 999"
proof -
  have L: "pageLimit fresh = 999" by (simp add: fresh_def Showtimes_def)
  from getTheaters_pages[OF _ thousand_pages] obtain api' sent r acc where
    "getTheaters thousand fresh None None [] = Some (api', sent, Callback [ArgNull, ArgResult r])"
    "length sent = fetches (pageLimit fresh) 1000"
    by auto
  then show ?thesis by (simp add: L fetches_def)
qed

lemma two_pages_ok: "theater_pages two_pages fresh None 2"
  by (simp add: theater_pages_def fetched_page_def two_pages_def page_one_def page_two_def
       rialto_def odeon_def fresh_def upt_rec
       op_eval theater_eval lib_eval str_eval Let_def)

lemma two_pages_named: "named_on named_theaters two_pages fresh (TheatersParams None) 2 = 2"
  by (simp add: named_on_def named_theaters_def fetched_page_def two_pages_def page_one_def page_two_def
       rialto_def odeon_def fresh_def upt_rec
       op_eval theater_eval lib_eval str_eval Let_def)

lemma movie_page_ok: "movie_pages (serve movie_page) fresh None 1"
  by (simp add: movie_pages_def fetched_page_def serve_def movie_page_def one_break_def
       fresh_def op_eval movie_eval lib_eval info_eval str_eval Let_def)

lemma movie_page_named: "named_on named_movies (serve movie_page) fresh (MoviesParams None) 1 = 1"
  by (simp add: named_on_def named_movies_def fetched_page_def serve_def movie_page_def one_break_def
       fresh_def op_eval movie_eval lib_eval info_eval str_eval Let_def)

text \<open>
  C3, as the claim states it, fails at both ends of the page limit. With the configured
  limit 0 and one result page (so K < N), \<^verbatim>\<open>getTheaters\<close> performs one fetch, not none:
  the page counter starts at 1 and is compared after the fetch. With no configured limit
  the limit is 999: on a thousand result pages, all but the last showing "Next",
  \<^verbatim>\<open>getTheaters\<close> performs 999 fetches, not 1000.
\<close>

theorem pagination_limit_counterexample:
  "theater_pages (serve page_two) limit_zero None 1 \<and>
   pageLimit limit_zero = 0 \<and>
   map_option (\<lambda>r. length (fst (snd r)))
     (getTheaters (serve page_two) limit_zero None None []) = Some 1 \<and>
   theater_pages thousand fresh None 1000 \<and>
   map_option (\<lambda>r. length (fst (snd r))) (getTheaters thousand fresh None None []) = Some 999"
  using zero_limit_pages zero_limit_run thousand_pages thousand_run
  by (simp add: limit_zero_def Showtimes_def)

text \<open>
  C3, amended. For every sequence of N result pages (N at least 1; each fetched with
  status 200, with at least one fragment, a title and a day that match and fragments
  that parse without an exception) where each page except the last shows "Next":
  \<^verbatim>\<open>getTheaters\<close>, and likewise \<^verbatim>\<open>getMovies\<close>, returns, performs exactly
  \<open>fetches limit N\<close> fetches and delivers one final result whose accumulator length is
  the number of fragments with a name on the pages fetched. The number of fetches is the
  page limit K when 1 \<le> K < N, and N otherwise; with no configured limit the limit is
  999, so the fetches are N for N up to 999.
\<close>

theorem pagination_fetches:
  "(0 < N \<and> theater_pages E this query N \<longrightarrow>
      (\<exists>api' sent r acc.
         getTheaters E this query None [] = Some (api', sent, Callback [ArgNull, ArgResult r]) \<and>
         length sent = fetches (pageLimit this) N \<and>
         r_data r = TheatersData acc \<and>
         length acc =
           named_on named_theaters E this (TheatersParams query) (fetches (pageLimit this) N))) \<and>
   (0 < N \<and> movie_pages E this query N \<longrightarrow>
      (\<exists>api' sent r acc.
         getMovies E this query None [] = Some (api', sent, Callback [ArgNull, ArgResult r]) \<and>
         length sent = fetches (pageLimit this) N \<and>
         r_data r = MoviesData acc \<and>
         length acc =
           named_on named_movies E this (MoviesParams query) (fetches (pageLimit this) N))) \<and>
   pageLimit (Showtimes loc \<lparr> opt_date = d, opt_lang = l, opt_pageLimit = None \<rparr>) = 999 \<and>
   pageLimit (Showtimes loc \<lparr> opt_date = d, opt_lang = l, opt_pageLimit = Some K \<rparr>) = K \<and>
   (1 \<le> K \<and> K < int N \<longrightarrow> fetches K N = nat K) \<and>
   (N \<le> 999 \<longrightarrow> fetches 999 N = N)"
proof (intro conjI impI)
  assume "0 < N \<and> theater_pages E this query N"
  then show "\<exists>api' sent r acc.
         getTheaters E this query None [] = Some (api', sent, Callback [ArgNull, ArgResult r]) \<and>
         length sent = fetches (pageLimit this) N \<and>
         r_data r = TheatersData acc \<and>
         length acc =
           named_on named_theaters E this (TheatersParams query) (fetches (pageLimit this) N)"
    using getTheaters_pages[of N E this query] by blast
next
  assume "0 < N \<and> movie_pages E this query N"
  then show "\<exists>api' sent r acc.
         getMovies E this query None [] = Some (api', sent, Callback [ArgNull, ArgResult r]) \<and>
         length sent = fetches (pageLimit this) N \<and>
         r_data r = MoviesData acc \<and>
         length acc =
           named_on named_movies E this (MoviesParams query) (fetches (pageLimit this) N)"
    using getMovies_pages[of N E this query] by blast
next
  show "pageLimit (Showtimes loc \<lparr> opt_date = d, opt_lang = l, opt_pageLimit = None \<rparr>) = 999"
    by (simp add: Showtimes_def)
  show "pageLimit (Showtimes loc \<lparr> opt_date = d, opt_lang = l, opt_pageLimit = Some K \<rparr>) = K"
    by (simp add: Showtimes_def)
  show "fetches K N = nat K" if "1 \<le> K \<and> K < int N"
    using that by (simp add: fetches_def)
  show "fetches 999 N = N" if "N \<le> 999"
    using that by (simp add: fetches_def)
qed

theorem pagination_fetches_witness:
  "(\<exists>api' sent r acc.
      getTheaters two_pages fresh None None [] =
        Some (api', sent, Callback [ArgNull, ArgResult r]) \<and>
      length sent = 2 \<and> r_data r = TheatersData acc \<and> length acc = 2) \<and>
   (\<exists>api' sent r acc.
      getMovies (serve movie_page) fresh None None [] =
        Some (api', sent, Callback [ArgNull, ArgResult r]) \<and>
      length sent = 1 \<and> r_data r = MoviesData acc \<and> length acc = 1)"
proof -
  have L: "pageLimit fresh = 999" by (simp add: fresh_def Showtimes_def)
  have F2: "fetches (pageLimit fresh) 2 = 2" by (simp add: L fetches_def)
  have F1: "fetches (pageLimit fresh) 1 = 1" by (simp add: L fetches_def)
  have t: "0 < (2::nat) \<and> theater_pages two_pages fresh None 2"
    using two_pages_ok by simp
  have m: "0 < (1::nat) \<and> movie_pages (serve movie_page) fresh None 1"
    using movie_page_ok by simp
  from pagination_fetches[of 2 two_pages fresh None] t
  have "\<exists>api' sent r acc.
      getTheaters two_pages fresh None None [] =
        Some (api', sent, Callback [ArgNull, ArgResult r]) \<and>
      length sent = fetches (pageLimit fresh) 2 \<and> r_data r = TheatersData acc \<and>
      length acc =
        named_on named_theaters two_pages fresh (TheatersParams None) (fetches (pageLimit fresh) 2)"
    by blast
  then have T: "\<exists>api' sent r acc.
      getTheaters two_pages fresh None None [] =
        Some (api', sent, Callback [ArgNull, ArgResult r]) \<and>
      length sent = 2 \<and> r_data r = TheatersData acc \<and> length acc = 2"
    unfolding F2 two_pages_named .
  from pagination_fetches[of 1 "serve movie_page" fresh None] m
  have "\<exists>api' sent r acc.
      getMovies (serve movie_page) fresh None None [] =
        Some (api', sent, Callback [ArgNull, ArgResult r]) \<and>
      length sent = fetches (pageLimit fresh) 1 \<and> r_data r = MoviesData acc \<and>
      length acc =
        named_on named_movies (serve movie_page) fresh (MoviesParams None)
          (fetches (pageLimit fresh) 1)"
    by blast
  then have M: "\<exists>api' sent r acc.
      getMovies (serve movie_page) fresh None None [] =
        Some (api', sent, Callback [ArgNull, ArgResult r]) \<and>
      length sent = 1 \<and> r_data r = MoviesData acc \<and> length acc = 1"
    unfolding F1 movie_page_named .
  from T M show ?thesis by (rule conjI)
qed

subsection \<open>Failed fetches and empty pages\<close>

text \<open>
  C8, as the claim states it, fails in its second half. On a 200 page without theater
  fragments \<^verbatim>\<open>getTheaters\<close> calls \<^verbatim>\<open>cb($('#results').text())\<close>: the text is the first
  and only argument, where the error stands, and there is no data argument. It is the
  same call as for a 404 answer, with another string.
\<close>

theorem empty_page_counterexample:
  "map_option (\<lambda>r. snd (snd r)) (getTheaters (serve no_results) fresh None None []) =
     Some (Callback [ArgString (js ''No showtimes were found.'')]) \<and>
   cb_error (Callback [ArgString (js ''No showtimes were found.'')]) =
     Some (ArgString (js ''No showtimes were found.'')) \<and>
   cb_data (Callback [ArgString (js ''No showtimes were found.'')]) = None \<and>
   map_option (\<lambda>r. snd (snd r)) (getTheaters not_found fresh None None []) =
     Some (Callback [ArgString unknown_error])"
  by (simp add: getTheaters.simps serve_def not_found_def no_results_def blank_page_def
        fresh_def cb_error_def cb_data_def op_eval Let_def)

text \<open>
  C8, amended. A fetch that fails invokes the completion callback with the transport
  error as its one argument, and a fetch with a status other than 200 with the generic
  unknown-error string as its one argument, in all four public operations and, in the
  paginated ones, at the first page of a run and at every later one. A 200 page with no
  theater fragment (in \<^verbatim>\<open>getTheaters\<close>) or no movie fragment (in \<^verbatim>\<open>getMovies\<close>), the
  first page of a run or a later one, invokes the callback with the page's own result
  text as its one argument, in the position of the error and without a data argument;
  the records of the pages before it are not delivered. In each of these cases the
  paginated operation ends with this fetch.
\<close>

theorem request_errors_and_empty_pages:
  "(http E (request_options_of this ps) = Failed err \<longrightarrow>
      request E this ps = Inl (Callback [ArgError err])) \<and>
   (http E (request_options_of this ps) = Response status body \<and> status \<noteq> 200 \<longrightarrow>
      request E this ps = Inl (Callback [ArgString unknown_error])) \<and>
   (http E (request_options_of this ps) = Response 200 body \<longrightarrow>
      request E this ps = Inr body) \<and>
   (request E this (TheaterParams i) = Inl out \<longrightarrow> snd (getTheater E this i) = out) \<and>
   (request E this (MovieParams i) = Inl out \<longrightarrow> snd (getMovie E this i) = out) \<and>
   (request E (this\<lparr> page := Some (page_no extra), theaters := Some (so_far extra) \<rparr>)
      (TheatersParams q) = Inl out \<longrightarrow>
      getTheaters E this q extra sent =
        Some (this\<lparr> page := Some (page_no extra), theaters := Some (so_far extra) \<rparr>,
              sent @ [request_options_of (this\<lparr> page := Some (page_no extra) \<rparr>)
                        (TheatersParams q)],
              out)) \<and>
   (request E (this\<lparr> page := Some (page_no extra'), movies := Some (so_far extra') \<rparr>)
      (MoviesParams q) = Inl out \<longrightarrow>
      getMovies E this q extra' sent =
        Some (this\<lparr> page := Some (page_no extra'), movies := Some (so_far extra') \<rparr>,
              sent @ [request_options_of (this\<lparr> page := Some (page_no extra') \<rparr>)
                        (MoviesParams q)],
              out)) \<and>
   (request E (this\<lparr> page := Some (page_no extra), theaters := Some (so_far extra) \<rparr>)
      (TheatersParams q) = Inr body \<and>
    pg_theater (cheerio_load E (decode_response this body)) = [] \<longrightarrow>
      getTheaters E this q extra sent =
        Some (this\<lparr> page := Some (page_no extra), theaters := Some (so_far extra) \<rparr>,
              sent @ [request_options_of (this\<lparr> page := Some (page_no extra) \<rparr>)
                        (TheatersParams q)],
              Callback
                [ArgString (pg_results_text (cheerio_load E (decode_response this body)))])) \<and>
   (request E (this\<lparr> page := Some (page_no extra'), movies := Some (so_far extra') \<rparr>)
      (MoviesParams q) = Inr body \<and>
    pg_movie (cheerio_load E (decode_response this body)) = [] \<longrightarrow>
      getMovies E this q extra' sent =
        Some (this\<lparr> page := Some (page_no extra'), movies := Some (so_far extra') \<rparr>,
              sent @ [request_options_of (this\<lparr> page := Some (page_no extra') \<rparr>)
                        (MoviesParams q)],
              Callback
                [ArgString (pg_results_text (cheerio_load E (decode_response this body)))]))"
proof -
  have d: "decode_response (this\<lparr> page := x, theaters := y \<rparr>) b = decode_response this b"
          "decode_response (this\<lparr> page := x, movies := z \<rparr>) b = decode_response this b"
    for x y z b
    by (simp_all add: decode_response_def)
  have r: "request E this ps =
             (case http E (request_options_of this ps) of
                Failed error \<Rightarrow> Inl (Callback [ArgError error])
              | Response statusCode body \<Rightarrow>
                  (if statusCode = 200 then Inr body
                   else Inl (Callback [ArgString unknown_error])))"
    by (simp add: request_def)
  have single: "(request E this (TheaterParams i) = Inl out \<longrightarrow>
                   snd (getTheater E this i) = out) \<and>
                (request E this (MovieParams i) = Inl out \<longrightarrow> snd (getMovie E this i) = out)"
    by (simp add: getTheater_def getMovie_def)
  have t: "getTheaters E this q extra sent =
      (case request E (this\<lparr> page := Some (page_no extra), theaters := Some (so_far extra) \<rparr>)
              (TheatersParams q) of
         Inl out \<Rightarrow>
           Some (this\<lparr> page := Some (page_no extra), theaters := Some (so_far extra) \<rparr>,
                 sent @ [request_options_of
                           (this\<lparr> page := Some (page_no extra),
                                  theaters := Some (so_far extra) \<rparr>)
                           (TheatersParams q)],
                 out)
       | Inr response \<Rightarrow>
           (case getTheaters_handler E
                   (this\<lparr> page := Some (page_no extra), theaters := Some (so_far extra) \<rparr>)
                   (page_no extra) (so_far extra) response of
              Finished api' out \<Rightarrow>
                Some (api',
                      sent @ [request_options_of
                           (this\<lparr> page := Some (page_no extra),
                                  theaters := Some (so_far extra) \<rparr>)
                                (TheatersParams q)],
                      out)
            | NextPage api' p' acc' \<Rightarrow>
                getTheaters E api' q (Some (p', acc'))
                  (sent @ [request_options_of
                           (this\<lparr> page := Some (page_no extra),
                                  theaters := Some (so_far extra) \<rparr>)
                             (TheatersParams q)])))"
    unfolding page_no_def so_far_def
    by (subst getTheaters.simps) (unfold Let_def, rule refl)
  have m: "getMovies E this q extra' sent =
      (case request E (this\<lparr> page := Some (page_no extra'), movies := Some (so_far extra') \<rparr>)
              (MoviesParams q) of
         Inl out \<Rightarrow>
           Some (this\<lparr> page := Some (page_no extra'), movies := Some (so_far extra') \<rparr>,
                 sent @ [request_options_of
                           (this\<lparr> page := Some (page_no extra'),
                                  movies := Some (so_far extra') \<rparr>)
                           (MoviesParams q)],
                 out)
       | Inr response \<Rightarrow>
           (case getMovies_handler E
                   (this\<lparr> page := Some (page_no extra'), movies := Some (so_far extra') \<rparr>)
                   (page_no extra') (so_far extra') response of
              Finished api' out \<Rightarrow>
                Some (api',
                      sent @ [request_options_of
                           (this\<lparr> page := Some (page_no extra'),
                                  movies := Some (so_far extra') \<rparr>)
                                (MoviesParams q)],
                      out)
            | NextPage api' p' acc' \<Rightarrow>
                getMovies E api' q (Some (p', acc'))
                  (sent @ [request_options_of
                           (this\<lparr> page := Some (page_no extra'),
                                  movies := Some (so_far extra') \<rparr>)
                             (MoviesParams q)])))"
    unfolding page_no_def so_far_def
    by (subst getMovies.simps) (unfold Let_def, rule refl)
  show ?thesis
    unfolding t m
    using single
    by (simp add: r getTheaters_handler_def getMovies_handler_def d Let_def options_page_only
          split: response.splits)
qed

theorem request_errors_and_empty_pages_witness:
  "map_option (\<lambda>r. snd (snd r)) (getTheaters refusing fresh None None []) =
     Some (Callback [ArgError (RequestError (js ''ECONNREFUSED''))]) \<and>
   snd (getTheater not_found fresh (JStr (js ''T1''))) =
     Callback
       [ArgString
          (js ''Unknown error occured while querying theater data from Google Movies.'')] \<and>
   map_option (\<lambda>r. snd (snd r)) (getMovies (serve no_results) fresh None None []) =
     Some (Callback [ArgString (js ''No showtimes were found.'')]) \<and>
   map_option (\<lambda>r. (map rq_start (fst (snd r)), snd (snd r)))
     (getTheaters then_empty fresh None None []) =
     Some ([Some 0, Some 10], Callback [ArgString (js ''No showtimes were found.'')])"
proof -
  have 1: "request refusing (fresh\<lparr> page := Some 1, theaters := Some [] \<rparr>) (TheatersParams None) =
             Inl (Callback [ArgError (RequestError (js ''ECONNREFUSED''))])"
    using request_errors_and_empty_pages[where E = refusing
        and this = "fresh\<lparr> page := Some 1, theaters := Some [] \<rparr>"
        and ps = "TheatersParams None" and err = "RequestError (js ''ECONNREFUSED'')"]
    by (simp add: refusing_def)
  have 2: "request not_found fresh (TheaterParams (JStr (js ''T1''))) =
             Inl (Callback [ArgString unknown_error])"
    using request_errors_and_empty_pages[where E = not_found and this = fresh
        and ps = "TheaterParams (JStr (js ''T1''))" and status = 404 and body = "js ''x''"]
    by (simp add: not_found_def)
  have 3: "request (serve no_results) (fresh\<lparr> page := Some 1, movies := Some [] \<rparr>)
             (MoviesParams None) = Inr (js ''x'')"
    using request_errors_and_empty_pages[where E = "serve no_results"
        and this = "fresh\<lparr> page := Some 1, movies := Some [] \<rparr>"
        and ps = "MoviesParams None" and body = "js ''x''"]
    by (simp add: serve_def)
  have 4: "pg_movie (cheerio_load (serve no_results) (decode_response fresh (js ''x''))) = []"
          "pg_results_text (cheerio_load (serve no_results) (decode_response fresh (js ''x''))) =
             js ''No showtimes were found.''"
    by (simp_all add: serve_def no_results_def blank_page_def)
  have a: "map_option (\<lambda>r. snd (snd r)) (getTheaters refusing fresh None None []) =
     Some (Callback [ArgError (RequestError (js ''ECONNREFUSED''))])"
    using request_errors_and_empty_pages[where E = refusing and this = fresh and q = None
        and extra = None and sent = "[]"
        and out = "Callback [ArgError (RequestError (js ''ECONNREFUSED''))]"] 1
    by (simp add: page_no_def so_far_def)
  have b: "snd (getTheater not_found fresh (JStr (js ''T1''))) = Callback [ArgString unknown_error]"
    using request_errors_and_empty_pages[where E = not_found and this = fresh
        and i = "JStr (js ''T1'')" and out = "Callback [ArgString unknown_error]"] 2
    by blast
  have c: "map_option (\<lambda>r. snd (snd r)) (getMovies (serve no_results) fresh None None []) =
     Some (Callback [ArgString (pg_results_text
             (cheerio_load (serve no_results) (decode_response fresh (js ''x''))))])"
    using request_errors_and_empty_pages[where E = "serve no_results" and this = fresh
        and q = None and extra' = None and sent = "[]" and body = "js ''x''"] 3 4(1)
    by (simp add: page_no_def so_far_def)
  define acc where "acc = fst (each_theater then_empty page_one [rialto] [])"
  define rq where "rq = request_options_of (fresh\<lparr> page := Some 1 \<rparr>) (TheatersParams None)"
  have s1: "getTheaters then_empty fresh None None [] =
              getTheaters then_empty (fresh\<lparr> page := Some 2, theaters := Some acc \<rparr>) None
                (Some (2, acc)) [rq]"
    by (subst getTheaters.simps)
       (simp add: acc_def rq_def then_empty_def page_one_def rialto_def fresh_def
          op_eval theater_eval lib_eval str_eval Let_def)
  have 5: "request then_empty (fresh\<lparr> page := Some 2, theaters := Some acc \<rparr>)
             (TheatersParams None) = Inr (js ''2'')"
    by (simp add: then_empty_def request_def request_options_of_def)
  have 6: "pg_theater (cheerio_load then_empty (decode_response fresh (js ''2''))) = []"
          "pg_results_text (cheerio_load then_empty (decode_response fresh (js ''2''))) =
             js ''No showtimes were found.''"
    by (simp_all add: then_empty_def no_results_def blank_page_def decode_response_def fresh_def
          Showtimes_def js_def)
  have s2: "getTheaters then_empty (fresh\<lparr> page := Some 2, theaters := Some acc \<rparr>) None
              (Some (2, acc)) [rq] =
            Some (fresh\<lparr> page := Some 2, theaters := Some acc \<rparr>,
                  [rq, request_options_of (fresh\<lparr> page := Some 2 \<rparr>) (TheatersParams None)],
                  Callback [ArgString (js ''No showtimes were found.'')])"
    using request_errors_and_empty_pages[where E = then_empty
        and this = "fresh\<lparr> page := Some 2, theaters := Some acc \<rparr>" and q = None
        and extra = "Some (2, acc)" and sent = "[rq]" and body = "js ''2''"] 5 6
    by (simp add: page_no_def so_far_def decode_response_def request_options_of_def)
  have e: "map_option (\<lambda>r. (map rq_start (fst (snd r)), snd (snd r)))
     (getTheaters then_empty fresh None None []) =
     Some ([Some 0, Some 10], Callback [ArgString (js ''No showtimes were found.'')])"
    unfolding s1 s2 by (simp add: rq_def request_options_of_def)
  show ?thesis using a b c e unfolding 4(2) unknown_error_def by simp
qed

end
